theory Spec2Isabelle
  imports Complex_Main "HOL-Library.Char_ord" "HOL-Library.List_Lexorder"
begin

section \<open>Move-selection strategies of the bot (strategies.py)\<close>

text \<open>
  The module defines four engines. Three choose among the legal moves of the board
  locally; the fourth, \<open>LlamaEngine\<close>, posts the game to a remote inference endpoint and
  turns the answer into a move or a resignation. Every \<open>search\<close> method is embedded as a
  HOL function; an exception raised in Python is the \<open>Inl\<close> branch of the result.
\<close>

subsection \<open>Exceptions\<close>

text \<open>
  The Python exception classes that can leave the module. \<open>IndexError\<close>,
  \<open>TypeError\<close> and \<open>AttributeError\<close> are raised by the interpreter (indexing an empty
  list, calling \<open>len\<close> or \<open>join\<close> on a value of the wrong type, calling \<open>.get\<close> on a
  value that is not a dict). \<open>JSONDecodeError\<close> comes from the JSON decoder,
  \<open>HTTPError\<close>, \<open>Timeout\<close> and \<open>ConnectionError\<close> from the HTTP client, and
  \<open>InvalidMoveError\<close>, \<open>IllegalMoveError\<close> and \<open>AmbiguousMoveError\<close> from the chess
  library's SAN parser. \<open>ResponseFormatError\<close> is a kind named in the written error
  taxonomy; no statement of strategies.py raises it.
\<close>

datatype py_exception =
    IndexError
  | TypeError
  | AttributeError
  | JSONDecodeError
  | HTTPError
  | Timeout
  | ConnectionError
  | InvalidMoveError
  | IllegalMoveError
  | AmbiguousMoveError
  | ResponseFormatError

type_synonym 'a result = "py_exception + 'a"

subsection \<open>The chess library's objects\<close>

text \<open>
  \<open>chess.Board\<close> is not part of the module; the model takes what the module reads from a
  board as the fields of a record. \<open>legal_moves\<close> is \<open>list(board.legal_moves)\<close> in
  generation order, \<open>san\<close> is \<open>board.san\<close>, \<open>parse_san\<close> is \<open>board.parse_san\<close> on a
  \<open>str\<close> argument (it returns the move or raises one of the three SAN errors),
  \<open>fullmove_number\<close> is the attribute of that name and \<open>mainline_moves\<close> is
  \<open>str(Game.from_board(board).mainline_moves())\<close>. The type \<open>'m\<close> is \<open>chess.Move\<close>.
\<close>

record 'm board =
  legal_moves :: "'m list"
  san :: "'m \<Rightarrow> string"
  parse_san :: "string \<Rightarrow> 'm result"
  fullmove_number :: int
  mainline_moves :: string

text \<open>
  \<open>chess.engine.PlayResult(move, ponder, info=None, draw_offered=False, resigned=False)\<close>.
\<close>

record 'm play_result =
  move :: "'m option"
  ponder :: "'m option"
  draw_offered :: bool
  resigned :: bool

definition PlayResult :: "'m option \<Rightarrow> 'm option \<Rightarrow> 'm play_result" where
  "PlayResult m p = \<lparr>move = m, ponder = p, draw_offered = False, resigned = False\<rparr>"

definition PlayResult_resigned :: "'m option \<Rightarrow> 'm option \<Rightarrow> bool \<Rightarrow> 'm play_result" where
  "PlayResult_resigned m p r = \<lparr>move = m, ponder = p, draw_offered = False, resigned = r\<rparr>"

subsection \<open>The local strategies\<close>

text \<open>
  \<open>random.choice(seq)\<close> raises \<open>IndexError\<close> on an empty sequence and otherwise returns
  \<open>seq[k]\<close> for a drawn index \<open>k < len(seq)\<close>. The draw is the argument \<open>r\<close>, reduced
  modulo the length, so that every index below the length is reachable and no other.
\<close>

definition choice :: "nat \<Rightarrow> 'a list \<Rightarrow> 'a result" where
  "choice r seq = (if seq = [] then Inl IndexError else Inr (seq ! (r mod length seq)))"

text \<open>\<open>moves[0]\<close>: Python raises \<open>IndexError\<close> on an empty list.\<close>

definition index0 :: "'a list \<Rightarrow> 'a result" where
  "index0 xs = (case xs of [] \<Rightarrow> Inl IndexError | x # _ \<Rightarrow> Inr x)"

text \<open>
  \<open>RandomMove.search\<close>:
  \<^verbatim>\<open>return PlayResult(random.choice(list(board.legal_moves)), None)\<close>
\<close>

definition RandomMove_search :: "nat \<Rightarrow> 'm board \<Rightarrow> 'm play_result result" where
  "RandomMove_search r board =
     (case choice r (legal_moves board) of
        Inl e \<Rightarrow> Inl e
      | Inr m \<Rightarrow> Inr (PlayResult (Some m) None))"

text \<open>
  \<open>Alphabetical.search\<close>:
  \<^verbatim>\<open>moves = list(board.legal_moves); moves.sort(key=board.san); return PlayResult(moves[0], None)\<close>
  Python's \<open>list.sort\<close> is stable and compares the keys, here strings, by code point;
  \<open>sort_key\<close> is the stable insertion sort on the lexicographic order of \<open>char list\<close>.
\<close>

definition Alphabetical_search :: "'m board \<Rightarrow> 'm play_result result" where
  "Alphabetical_search board =
     (let moves = legal_moves board;
          moves = sort_key (san board) moves
      in case index0 moves of
           Inl e \<Rightarrow> Inl e
         | Inr m \<Rightarrow> Inr (PlayResult (Some m) None))"

text \<open>
  \<open>FirstMove.search\<close>:
  \<^verbatim>\<open>moves = list(board.legal_moves); moves.sort(key=str); return PlayResult(moves[0], None)\<close>
  \<open>str\<close> of a \<open>chess.Move\<close> is its UCI rendering; it is the parameter \<open>str_move\<close>.
\<close>

definition FirstMove_search :: "('m \<Rightarrow> string) \<Rightarrow> 'm board \<Rightarrow> 'm play_result result" where
  "FirstMove_search str_move board =
     (let moves = legal_moves board;
          moves = sort_key str_move moves
      in case index0 moves of
           Inl e \<Rightarrow> Inl e
         | Inr m \<Rightarrow> Inr (PlayResult (Some m) None))"

subsection \<open>JSON values and the Python operations applied to them\<close>

text \<open>
  A Python \<open>float\<close>: a finite double, named by the decimal it prints as (\<open>0.7\<close> is
  \<open>Float (7 / 10)\<close>; a literal too small for a double has already been rounded to
  \<open>Float 0\<close> by the decoder), or one of the three special values that \<open>json.loads\<close> also
  accepts.
\<close>

datatype py_float = Float rat | NaN | Infinity | NegInfinity

text \<open>
  What \<open>json.loads\<close> and \<open>response.json()\<close> return, and what the request body is built
  from: \<open>None\<close>, booleans, integers, floats, strings, lists, and dicts as association
  lists in insertion order (a dict has each key once).
\<close>

datatype json =
    JNull
  | JBool bool
  | JInt int
  | JFloat py_float
  | JStr string
  | JArr "json list"
  | JObj "(string \<times> json) list"

text \<open>
  \<open>d.get(key)\<close> and \<open>d.get(key, None)\<close>: the value under the key, or \<open>None\<close> when the
  key is absent. Only a dict has the method; on any other value Python raises
  \<open>AttributeError\<close>.
\<close>

definition py_get :: "json \<Rightarrow> string \<Rightarrow> json result" where
  "py_get d k =
     (case d of
        JObj kvs \<Rightarrow> Inr (case map_of kvs k of Some v \<Rightarrow> v | None \<Rightarrow> JNull)
      | _ \<Rightarrow> Inl AttributeError)"

text \<open>Python's truth value of an object, as tested by \<open>if illegal_moves:\<close> and \<open>if resign:\<close>.\<close>

fun truthy :: "json \<Rightarrow> bool" where
  "truthy JNull = False"
| "truthy (JBool b) = b"
| "truthy (JInt n) = (n \<noteq> 0)"
| "truthy (JFloat x) = (x \<noteq> Float 0)"
| "truthy (JStr s) = (s \<noteq> [])"
| "truthy (JArr xs) = (xs \<noteq> [])"
| "truthy (JObj kvs) = (kvs \<noteq> [])"

text \<open>\<open>len(x)\<close>: defined on strings, lists and dicts; \<open>TypeError\<close> otherwise.\<close>

fun py_len :: "json \<Rightarrow> nat result" where
  "py_len (JStr s) = Inr (length s)"
| "py_len (JArr xs) = Inr (length xs)"
| "py_len (JObj kvs) = Inr (length kvs)"
| "py_len _ = Inl TypeError"

text \<open>
  \<open>sep.join(x)\<close>: \<open>x\<close> is iterated (a list yields its items, a string its characters, a
  dict its keys; anything else is not iterable) and every item must be a string, else
  \<open>TypeError\<close>.
\<close>

fun join_strs :: "string \<Rightarrow> string list \<Rightarrow> string" where
  "join_strs sep [] = []"
| "join_strs sep [s] = s"
| "join_strs sep (s # t # ss) = s @ sep @ join_strs sep (t # ss)"

fun the_str :: "json \<Rightarrow> string option" where
  "the_str (JStr s) = Some s"
| "the_str _ = None"

fun all_strs :: "json list \<Rightarrow> string list option" where
  "all_strs [] = Some []"
| "all_strs (v # vs) =
     (case the_str v of
        None \<Rightarrow> None
      | Some s \<Rightarrow> (case all_strs vs of None \<Rightarrow> None | Some ss \<Rightarrow> Some (s # ss)))"

fun py_join :: "string \<Rightarrow> json \<Rightarrow> string result" where
  "py_join sep (JArr xs) =
     (case all_strs xs of None \<Rightarrow> Inl TypeError | Some ss \<Rightarrow> Inr (join_strs sep ss))"
| "py_join sep (JStr s) = Inr (join_strs sep (map (\<lambda>c. [c]) s))"
| "py_join sep (JObj kvs) = Inr (join_strs sep (map fst kvs))"
| "py_join sep _ = Inl TypeError"

text \<open>\<open>str\<close> of an integer, as the f-strings format \<open>move_count\<close>, the ratings and \<open>len(...)\<close>.\<close>

definition digit_char :: "nat \<Rightarrow> char" where
  "digit_char d = char_of (48 + d)"

function str_nat :: "nat \<Rightarrow> string" where
  "str_nat n = (if n < 10 then [digit_char n] else str_nat (n div 10) @ [digit_char (n mod 10)])"
  by pat_completeness auto
termination
  by (relation "measure (\<lambda>n. n)") auto

declare str_nat.simps [simp del]

definition str_int :: "int \<Rightarrow> string" where
  "str_int i = (if i < 0 then CHR ''-'' # str_nat (nat (- i)) else str_nat (nat i))"

text \<open>
  \<open>s.strip()\<close>: removes leading and trailing whitespace, the characters for which
  \<open>str.isspace\<close> holds (below code point 256: tab to carriage return, the four
  separators \<open>0x1c\<close> to \<open>0x1f\<close>, space, \<open>0x85\<close> and \<open>0xa0\<close>).
\<close>

definition is_space :: "char \<Rightarrow> bool" where
  "is_space c =
     (let n = (of_char c :: nat)
      in (9 \<le> n \<and> n \<le> 13) \<or> (28 \<le> n \<and> n \<le> 32) \<or> n = 133 \<or> n = 160)"

definition strip :: "string \<Rightarrow> string" where
  "strip s = rev (dropWhile is_space (rev (dropWhile is_space s)))"

subsection \<open>The collaborators of the remote resolver\<close>

text \<open>
  Modelled from the spec: \<open>model.Game\<close> and its players live in model.py, which is not
  among the sources. The module reads \<open>white.rating\<close>, \<open>black.rating\<close> and \<open>my_color\<close>
  of \<open>lichess_game\<close>; the game context holds both players' numeric ratings and the side
  to move.
\<close>

record player =
  rating :: int

record game =
  white :: player
  black :: player
  my_color :: string

text \<open>
  The two module-level constants read from the environment at import time
  (\<open>RUNPOD_API_KEY\<close>, \<open>RUNPOD_RUNSYNC_ENDPOINT\<close>); both are asserted to be set.
\<close>

record config =
  RUNPOD_API_KEY :: string
  RUNPOD_RUNSYNC_ENDPOINT :: string

text \<open>The arguments of \<open>requests.post(url, headers=..., json=..., timeout=...)\<close>.\<close>

record request =
  url :: string
  headers :: "(string \<times> string) list"
  json_body :: json
  timeout :: nat

text \<open>
  The \<open>requests.Response\<close> object, as far as the module uses it: its \<open>status_code\<close>
  and what \<open>json()\<close> does (it returns the parsed body or raises).
\<close>

record response =
  status_code :: int
  json_method :: "json result"

text \<open>
  \<open>response.raise_for_status()\<close>: the HTTP library raises \<open>HTTPError\<close> for a client
  error (400 to 499) or a server error (500 to 599) and returns for every other status.
\<close>

definition raise_for_status :: "response \<Rightarrow> py_exception option" where
  "raise_for_status response =
     (if 400 \<le> status_code response \<and> status_code response < 600 then Some HTTPError
      else None)"

text \<open>
  What an invocation does to the outside world, in order: the HTTP requests it issues and
  the chat messages it sends (room, text).
\<close>

datatype event = Post request | Chat string string

text \<open>The requests issued and the chat messages sent in a trace, each in order.\<close>

fun posts :: "event list \<Rightarrow> request list" where
  "posts [] = []"
| "posts (Post r # es) = r # posts es"
| "posts (Chat room message # es) = posts es"

fun chats :: "event list \<Rightarrow> (string \<times> string) list" where
  "chats [] = []"
| "chats (Post r # es) = chats es"
| "chats (Chat room message # es) = (room, message) # chats es"

text \<open>
  Modelled from the spec: \<open>Conversation.send_message\<close> lives in conversation.py, which is
  not among the sources. The messaging side-channel has two named audiences, each
  accepting a plain-text status message: sending appends the message for the room to the
  trace and returns.
\<close>

definition send_message :: "string \<Rightarrow> string \<Rightarrow> event list \<Rightarrow> event list" where
  "send_message room message tr = tr @ [Chat room message]"

text \<open>
  \<open>json.loads(x)\<close>: \<open>TypeError\<close> unless \<open>x\<close> is a string; on a string, the decoder
  \<open>loads\<close> (a parameter) returns the value or raises \<open>JSONDecodeError\<close>.
\<close>

definition json_loads :: "(string \<Rightarrow> json result) \<Rightarrow> json \<Rightarrow> json result" where
  "json_loads loads x = (case x of JStr s \<Rightarrow> loads s | _ \<Rightarrow> Inl TypeError)"

text \<open>
  \<open>board.parse_san(x)\<close> on the value taken from the response: the library matches its
  argument against a compiled regular expression, which raises \<open>TypeError\<close> for anything
  that is not a string (in particular for \<open>None\<close>).
\<close>

definition board_parse_san :: "'m board \<Rightarrow> json \<Rightarrow> 'm result" where
  "board_parse_san board x = (case x of JStr s \<Rightarrow> parse_san board s | _ \<Rightarrow> Inl TypeError)"

subsection \<open>LlamaEngine.search\<close>

definition dquote :: char where
  "dquote = char_of (34 :: nat)"

definition newline :: char where
  "newline = char_of (10 :: nat)"

text \<open>
  Lines 72 to 105: the PGN text with the two rating tags, the request data and the
  headers.
  \<^verbatim>\<open>pgn = f'[WhiteElo "{white_elo}"]\n[BlackElo "{black_elo}"]\n\n' + pgn.strip()\<close>
\<close>

definition request_of :: "config \<Rightarrow> game \<Rightarrow> 'm board \<Rightarrow> request" where
  "request_of cfg lichess_game board =
     (let pgn = mainline_moves board;
          white_elo = rating (white lichess_game);
          black_elo = rating (black lichess_game);
          pgn = ''[WhiteElo '' @ [dquote] @ str_int white_elo @ [dquote] @ '']'' @ [newline]
                @ ''[BlackElo '' @ [dquote] @ str_int black_elo @ [dquote] @ '']'' @ [newline]
                @ [newline] @ strip pgn;
          color = my_color lichess_game;
          move_count = fullmove_number board;
          data = JObj [(''input'', JObj [
                   (''pgn'', JStr pgn),
                   (''color'', JStr color),
                   (''move_count'', JInt move_count),
                   (''temperature'', JFloat (Float (7 / 10))),
                   (''top_p'', JFloat (Float (9 / 10))),
                   (''top_k'', JInt 1000),
                   (''num_beams'', JInt 1),
                   (''do_sample'', JBool True),
                   (''use_cache'', JBool True)])];
          headers = [(''Authorization'', ''Bearer '' @ RUNPOD_API_KEY cfg),
                     (''Content-Type'', ''application/json'')]
      in \<lparr>url = RUNPOD_RUNSYNC_ENDPOINT cfg, headers = headers, json_body = data,
          timeout = 300\<rparr>)"

text \<open>
  Lines 112 to 116, on the response object:
  \<^verbatim>\<open>response.raise_for_status()
  result = response.json().get('output')
  result = json.loads(result)\<close>
\<close>

definition decode :: "(string \<Rightarrow> json result) \<Rightarrow> response \<Rightarrow> json result" where
  "decode loads response =
     (case raise_for_status response of
        Some e \<Rightarrow> Inl e
      | None \<Rightarrow>
          (case json_method response of
             Inl e \<Rightarrow> Inl e
           | Inr body \<Rightarrow>
               (case py_get body ''output'' of
                  Inl e \<Rightarrow> Inl e
                | Inr result \<Rightarrow> json_loads loads result)))"

text \<open>
  Line 122, the f-string:
  \<^verbatim>\<open>f"[Move {move_count}] tried {len(illegal_moves)} illegal move{'s' if len(illegal_moves) > 1 else ''}:  {', '.join(illegal_moves)}"\<close>
  Its parts are evaluated left to right; each can raise.
\<close>

definition illegal_moves_message :: "int \<Rightarrow> json \<Rightarrow> string result" where
  "illegal_moves_message move_count illegal_moves =
     (case py_len illegal_moves of
        Inl e \<Rightarrow> Inl e
      | Inr n \<Rightarrow>
          (case py_join '', '' illegal_moves of
             Inl e \<Rightarrow> Inl e
           | Inr joined \<Rightarrow>
               Inr (''[Move '' @ str_int move_count @ ''] tried '' @ str_nat n
                    @ '' illegal move'' @ (if n > 1 then ''s'' else [])
                    @ '':  '' @ joined)))"

text \<open>
  The whole method. \<open>post\<close> is \<open>requests.post\<close> (it returns a response or raises) and
  \<open>loads\<close> the JSON decoder; \<open>tr\<close> is the trace before the call. The result is what the
  method returns or raises, with the trace after it.
\<close>

definition search ::
  "config \<Rightarrow> (request \<Rightarrow> response result) \<Rightarrow> (string \<Rightarrow> json result) \<Rightarrow>
   game \<Rightarrow> 'm board \<Rightarrow> event list \<Rightarrow> 'm play_result result \<times> event list" where
  "search cfg post loads lichess_game board tr =
     (let req = request_of cfg lichess_game board;
          move_count = fullmove_number board;
          tr = tr @ [Post req]
      in case post req of
           Inl e \<Rightarrow> (Inl e, tr)
         | Inr response \<Rightarrow>
             (case decode loads response of
                Inl e \<Rightarrow> (Inl e, tr)
              | Inr result \<Rightarrow>
                  (case py_get result ''move'' of
                     Inl e \<Rightarrow> (Inl e, tr)
                   | Inr move_str \<Rightarrow>
                       (case py_get result ''illegal_moves'' of
                          Inl e \<Rightarrow> (Inl e, tr)
                        | Inr illegal_moves \<Rightarrow>
                            (case py_get result ''resign'' of
                               Inl e \<Rightarrow> (Inl e, tr)
                             | Inr resign \<Rightarrow>
                                 (case (if truthy illegal_moves
                                        then (case illegal_moves_message move_count illegal_moves of
                                                Inl e \<Rightarrow> Inl e
                                              | Inr message \<Rightarrow>
                                                  Inr (send_message ''spectator'' message
                                                        (send_message ''player'' message tr)))
                                        else Inr tr) of
                                    Inl e \<Rightarrow> (Inl e, tr)
                                  | Inr tr \<Rightarrow>
                                      if truthy resign
                                      then (Inr (PlayResult_resigned None None True), tr)
                                      else (case board_parse_san board move_str of
                                              Inl e \<Rightarrow> (Inl e, tr)
                                            | Inr mv \<Rightarrow> (Inr (PlayResult (Some mv) None), tr))))))))"

subsection \<open>The chess library's SAN parser\<close>

text \<open>
  \<open>chess.Board.parse_san\<close> belongs to the chess library, not to the module. What it does
  is written out here so that the examples can run it and so that the error it raises
  can be derived rather than assumed. A position is given by the side to move
  (\<open>True\<close> is White), the piece on each square (colour and lower-case piece symbol) and
  \<open>list(board.legal_moves)\<close>; a square is its name (\<open>e4\<close>) and a move its UCI string
  (\<open>e2e4\<close>, \<open>e7e8q\<close>, the null move \<open>0000\<close>).
\<close>

record position =
  turn :: bool
  piece_at :: "string \<Rightarrow> (bool \<times> char) option"
  legal :: "string list"

definition from_square :: "string \<Rightarrow> string" where
  "from_square m = take 2 m"

definition to_square :: "string \<Rightarrow> string" where
  "to_square m = take 2 (drop 2 m)"

definition promotion_of :: "string \<Rightarrow> char option" where
  "promotion_of m = (case drop 4 m of [] \<Rightarrow> None | c # _ \<Rightarrow> Some c)"

definition square_file :: "string \<Rightarrow> nat" where
  "square_file sq = (case sq of [] \<Rightarrow> 0 | f # _ \<Rightarrow> of_char f)"

definition kind_at :: "position \<Rightarrow> string \<Rightarrow> char option" where
  "kind_at pos sq = map_option snd (piece_at pos sq)"

text \<open>
  \<open>is_castling\<close>: the moving piece is a king and it moves more than one file, or onto a
  rook of the side to move. \<open>is_kingside_castling\<close> and \<open>is_queenside_castling\<close> compare
  the files of the two squares.
\<close>

definition is_castling :: "position \<Rightarrow> string \<Rightarrow> bool" where
  "is_castling pos m =
     (kind_at pos (from_square m) = Some (CHR ''k'')
      \<and> (square_file (from_square m) > square_file (to_square m) + 1
         \<or> square_file (to_square m) > square_file (from_square m) + 1
         \<or> piece_at pos (to_square m) = Some (turn pos, CHR ''r'')))"

definition is_kingside_castling :: "position \<Rightarrow> string \<Rightarrow> bool" where
  "is_kingside_castling pos m =
     (is_castling pos m \<and> square_file (to_square m) > square_file (from_square m))"

definition is_queenside_castling :: "position \<Rightarrow> string \<Rightarrow> bool" where
  "is_queenside_castling pos m =
     (is_castling pos m \<and> square_file (to_square m) < square_file (from_square m))"

text \<open>
  The library's pattern for a SAN move,
  \<^verbatim>\<open>^([NBKRQ])?([a-h])?([1-8])?[\-x]?([a-h][1-8])(=?[nbrqkNBRQK])?[\+#]?\Z\<close>
  A string matches it in at most one way, which is found from the end: the check mark,
  the promotion piece with its optional equals sign, the target square, and then the
  optional capture mark, rank, file and piece letter, with nothing left over.
  \<open>take_opt cls s\<close> takes the first character of \<open>s\<close> when it is in the class.
\<close>

fun take_opt :: "string \<Rightarrow> string \<Rightarrow> char option \<times> string" where
  "take_opt cls [] = (None, [])"
| "take_opt cls (c # cs) = (if c \<in> set cls then (Some c, cs) else (None, c # cs))"

record san_groups =
  g_piece :: "char option"
  g_file :: "char option"
  g_rank :: "char option"
  g_to :: string
  g_promotion :: "char option"

definition san_match :: "string \<Rightarrow> san_groups option" where
  "san_match txt =
     (let r = snd (take_opt ''+#'' (rev txt));
          (promo, r) = (case take_opt ''nbrqkNBRQK'' r of
                          (None, r) \<Rightarrow> (None, r)
                        | (Some c, r) \<Rightarrow> (Some c, snd (take_opt ''='' r)))
      in case r of
           rk # fl # r \<Rightarrow>
             if rk \<in> set ''12345678'' \<and> fl \<in> set ''abcdefgh''
             then (let r = snd (take_opt ''-x'' r);
                       (frank, r) = take_opt ''12345678'' r;
                       (ffile, r) = take_opt ''abcdefgh'' r;
                       (pc, r) = take_opt ''NBKRQ'' r
                   in if r = []
                      then Some \<lparr>g_piece = pc, g_file = ffile, g_rank = frank, g_to = [fl, rk],
                                 g_promotion = promo\<rparr>
                      else None)
             else None
         | _ \<Rightarrow> None)"

text \<open>\<open>str.lower\<close> on a piece letter.\<close>

definition py_lower :: "char \<Rightarrow> char" where
  "py_lower c =
     (let n = (of_char c :: nat) in if 65 \<le> n \<and> n \<le> 90 then char_of (n + 32) else c)"

text \<open>
  The loop over \<open>generate_legal_moves(from_mask, to_mask)\<close>: the legal moves from an
  admitted square to the target (castling moves never pass the target mask) with the
  promotion asked for. None is an \<open>IllegalMoveError\<close>, a second one an
  \<open>AmbiguousMoveError\<close>.
\<close>

definition match_legal ::
  "position \<Rightarrow> (string \<Rightarrow> bool) \<Rightarrow> string \<Rightarrow> char option \<Rightarrow> string result" where
  "match_legal pos from_ok to promotion =
     (case filter (\<lambda>m. \<not> is_castling pos m \<and> from_ok (from_square m) \<and> to_square m = to
                         \<and> promotion_of m = promotion) (legal pos) of
        [] \<Rightarrow> Inl IllegalMoveError
      | [m] \<Rightarrow> Inr m
      | _ \<Rightarrow> Inl AmbiguousMoveError)"

text \<open>
  \<open>find_move(from_square, to_square, promotion)\<close>: a pawn reaching the back rank promotes
  to a queen when no piece is named, a king's move from its home square onto the rook's
  corner is read as castling, and the move must be legal.
\<close>

definition from_chess960 :: "position \<Rightarrow> string \<Rightarrow> string \<Rightarrow> char option \<Rightarrow> string" where
  "from_chess960 pos from to promotion =
     (if promotion = None \<and> from = ''e1'' \<and> kind_at pos ''e1'' = Some (CHR ''k'') \<and> to = ''h1''
      then ''e1g1''
      else if promotion = None \<and> from = ''e1'' \<and> kind_at pos ''e1'' = Some (CHR ''k'') \<and> to = ''a1''
      then ''e1c1''
      else if promotion = None \<and> from = ''e8'' \<and> kind_at pos ''e8'' = Some (CHR ''k'') \<and> to = ''h8''
      then ''e8g8''
      else if promotion = None \<and> from = ''e8'' \<and> kind_at pos ''e8'' = Some (CHR ''k'') \<and> to = ''a8''
      then ''e8c8''
      else from @ to @ (case promotion of None \<Rightarrow> [] | Some c \<Rightarrow> [c]))"

definition find_move :: "position \<Rightarrow> string \<Rightarrow> string \<Rightarrow> char option \<Rightarrow> string result" where
  "find_move pos from to promotion =
     (let promotion =
            (if promotion = None \<and> kind_at pos from = Some (CHR ''p'')
                \<and> (drop 1 to = ''1'' \<or> drop 1 to = ''8'')
             then Some (CHR ''q'') else promotion);
          move = from_chess960 pos from to promotion
      in if move \<in> set (legal pos) then Inr move else Inl IllegalMoveError)"

text \<open>
  \<open>Board.parse_san(san)\<close>. Castling notation gives the first legal castling move on that
  side, or \<open>IllegalMoveError\<close>. A string that does not match the pattern is the null move
  when it is one of its four spellings and an \<open>InvalidMoveError\<close> otherwise. A string
  that matches selects among the legal moves by target, origin file and rank, piece and
  promotion; without a piece letter but with both file and rank it names the move
  outright, and otherwise it is a pawn move, on the target's file unless a file is given.
\<close>

definition kingside_names :: "string list" where
  "kingside_names = [''O-O'', ''O-O+'', ''O-O#'', ''0-0'', ''0-0+'', ''0-0#'']"

definition queenside_names :: "string list" where
  "queenside_names = [''O-O-O'', ''O-O-O+'', ''O-O-O#'', ''0-0-0'', ''0-0-0+'', ''0-0-0#'']"

definition null_names :: "string list" where
  "null_names = [''--'', ''Z0'', ''0000'', ''@@@@'']"

definition chess_parse_san :: "position \<Rightarrow> string \<Rightarrow> string result" where
  "chess_parse_san pos txt =
     (if txt \<in> set kingside_names
      then (case filter (is_kingside_castling pos) (filter (is_castling pos) (legal pos)) of
              [] \<Rightarrow> Inl IllegalMoveError
            | m # _ \<Rightarrow> Inr m)
      else if txt \<in> set queenside_names
      then (case filter (is_queenside_castling pos) (filter (is_castling pos) (legal pos)) of
              [] \<Rightarrow> Inl IllegalMoveError
            | m # _ \<Rightarrow> Inr m)
      else case san_match txt of
             None \<Rightarrow> if txt \<in> set null_names then Inr ''0000'' else Inl InvalidMoveError
           | Some g \<Rightarrow>
               (let to = g_to g;
                    promotion = map_option py_lower (g_promotion g);
                    file_ok = (\<lambda>sq. case g_file g of None \<Rightarrow> True | Some f \<Rightarrow> take 1 sq = [f]);
                    rank_ok = (\<lambda>sq. case g_rank g of None \<Rightarrow> True | Some r \<Rightarrow> drop 1 sq = [r])
                in case g_piece g of
                     Some p \<Rightarrow>
                       match_legal pos
                         (\<lambda>sq. file_ok sq \<and> rank_ok sq
                                \<and> piece_at pos sq = Some (turn pos, py_lower p))
                         to promotion
                   | None \<Rightarrow>
                       (case (g_file g, g_rank g) of
                          (Some f, Some r) \<Rightarrow>
                            (case find_move pos [f, r] to promotion of
                               Inl e \<Rightarrow> Inl e
                             | Inr mv \<Rightarrow>
                                 if promotion_of mv = promotion then Inr mv
                                 else Inl IllegalMoveError)
                        | _ \<Rightarrow>
                            match_legal pos
                              (\<lambda>sq. file_ok sq \<and> rank_ok sq
                                     \<and> kind_at pos sq = Some (CHR ''p'')
                                     \<and> (case g_file g of
                                          None \<Rightarrow> take 1 sq = take 1 to
                                        | Some f \<Rightarrow> True))
                              to promotion)))"


subsection \<open>Two concrete positions\<close>

text \<open>
  The examples below run the strategies on the starting position and on the position
  after 1. e4 e5. A move is written as its UCI string, so \<open>str\<close> of a move is the move
  itself. \<open>start_moves\<close> and \<open>open_game_moves\<close> pair the legal moves, in the order the
  library generates them, with their SAN.
\<close>

definition start_placement :: "(string \<times> bool \<times> char) list" where
  "start_placement =
     [(''a1'', True, CHR ''r''), (''b1'', True, CHR ''n''), (''c1'', True, CHR ''b''),
      (''d1'', True, CHR ''q''), (''e1'', True, CHR ''k''), (''f1'', True, CHR ''b''),
      (''g1'', True, CHR ''n''), (''h1'', True, CHR ''r''),
      (''a2'', True, CHR ''p''), (''b2'', True, CHR ''p''), (''c2'', True, CHR ''p''),
      (''d2'', True, CHR ''p''), (''e2'', True, CHR ''p''), (''f2'', True, CHR ''p''),
      (''g2'', True, CHR ''p''), (''h2'', True, CHR ''p''),
      (''a7'', False, CHR ''p''), (''b7'', False, CHR ''p''), (''c7'', False, CHR ''p''),
      (''d7'', False, CHR ''p''), (''e7'', False, CHR ''p''), (''f7'', False, CHR ''p''),
      (''g7'', False, CHR ''p''), (''h7'', False, CHR ''p''),
      (''a8'', False, CHR ''r''), (''b8'', False, CHR ''n''), (''c8'', False, CHR ''b''),
      (''d8'', False, CHR ''q''), (''e8'', False, CHR ''k''), (''f8'', False, CHR ''b''),
      (''g8'', False, CHR ''n''), (''h8'', False, CHR ''r'')]"

definition start_moves :: "(string \<times> string) list" where
  "start_moves =
     [(''g1h3'', ''Nh3''), (''g1f3'', ''Nf3''), (''b1c3'', ''Nc3''), (''b1a3'', ''Na3''),
      (''h2h3'', ''h3''), (''g2g3'', ''g3''), (''f2f3'', ''f3''), (''e2e3'', ''e3''),
      (''d2d3'', ''d3''), (''c2c3'', ''c3''), (''b2b3'', ''b3''), (''a2a3'', ''a3''),
      (''h2h4'', ''h4''), (''g2g4'', ''g4''), (''f2f4'', ''f4''), (''e2e4'', ''e4''),
      (''d2d4'', ''d4''), (''c2c4'', ''c4''), (''b2b4'', ''b4''), (''a2a4'', ''a4'')]"

definition start_position :: position where
  "start_position =
     \<lparr>turn = True, piece_at = map_of start_placement, legal = map fst start_moves\<rparr>"

definition start_san :: "string \<Rightarrow> string" where
  "start_san m = (case map_of start_moves m of Some s \<Rightarrow> s | None \<Rightarrow> [])"

definition start_board :: "string board" where
  "start_board =
     \<lparr>legal_moves = legal start_position, san = start_san,
      parse_san = chess_parse_san start_position, fullmove_number = 1, mainline_moves = []\<rparr>"

definition open_game_placement :: "(string \<times> bool \<times> char) list" where
  "open_game_placement =
     [(''a1'', True, CHR ''r''), (''b1'', True, CHR ''n''), (''c1'', True, CHR ''b''),
      (''d1'', True, CHR ''q''), (''e1'', True, CHR ''k''), (''f1'', True, CHR ''b''),
      (''g1'', True, CHR ''n''), (''h1'', True, CHR ''r''),
      (''a2'', True, CHR ''p''), (''b2'', True, CHR ''p''), (''c2'', True, CHR ''p''),
      (''d2'', True, CHR ''p''), (''e4'', True, CHR ''p''), (''f2'', True, CHR ''p''),
      (''g2'', True, CHR ''p''), (''h2'', True, CHR ''p''),
      (''a7'', False, CHR ''p''), (''b7'', False, CHR ''p''), (''c7'', False, CHR ''p''),
      (''d7'', False, CHR ''p''), (''e5'', False, CHR ''p''), (''f7'', False, CHR ''p''),
      (''g7'', False, CHR ''p''), (''h7'', False, CHR ''p''),
      (''a8'', False, CHR ''r''), (''b8'', False, CHR ''n''), (''c8'', False, CHR ''b''),
      (''d8'', False, CHR ''q''), (''e8'', False, CHR ''k''), (''f8'', False, CHR ''b''),
      (''g8'', False, CHR ''n''), (''h8'', False, CHR ''r'')]"

definition open_game_moves :: "(string \<times> string) list" where
  "open_game_moves =
     [(''g1h3'', ''Nh3''), (''g1f3'', ''Nf3''), (''g1e2'', ''Ne2''),
      (''f1a6'', ''Ba6''), (''f1b5'', ''Bb5''), (''f1c4'', ''Bc4''), (''f1d3'', ''Bd3''),
      (''f1e2'', ''Be2''), (''e1e2'', ''Ke2''),
      (''d1h5'', ''Qh5''), (''d1g4'', ''Qg4''), (''d1f3'', ''Qf3''), (''d1e2'', ''Qe2''),
      (''b1c3'', ''Nc3''), (''b1a3'', ''Na3''),
      (''h2h3'', ''h3''), (''g2g3'', ''g3''), (''f2f3'', ''f3''), (''d2d3'', ''d3''),
      (''c2c3'', ''c3''), (''b2b3'', ''b3''), (''a2a3'', ''a3''),
      (''h2h4'', ''h4''), (''g2g4'', ''g4''), (''f2f4'', ''f4''), (''d2d4'', ''d4''),
      (''c2c4'', ''c4''), (''b2b4'', ''b4''), (''a2a4'', ''a4'')]"

definition open_game_position :: position where
  "open_game_position =
     \<lparr>turn = True, piece_at = map_of open_game_placement, legal = map fst open_game_moves\<rparr>"

definition open_game_san :: "string \<Rightarrow> string" where
  "open_game_san m = (case map_of open_game_moves m of Some s \<Rightarrow> s | None \<Rightarrow> [])"

definition open_game_board :: "string board" where
  "open_game_board =
     \<lparr>legal_moves = legal open_game_position, san = open_game_san,
      parse_san = chess_parse_san open_game_position, fullmove_number = 2,
      mainline_moves = ''1. e4 e5''\<rparr>"

definition example_game :: game where
  "example_game = \<lparr>white = \<lparr>rating = 1500\<rparr>, black = \<lparr>rating = 1612\<rparr>, my_color = ''white''\<rparr>"

definition example_config :: config where
  "example_config =
     \<lparr>RUNPOD_API_KEY = ''secret'', RUNPOD_RUNSYNC_ENDPOINT = ''https://api.example/runsync''\<rparr>"

text \<open>
  Endpoints: one that answers every request with the given status and the body
  \<open>{"output": out}\<close> (\<open>post_ok\<close> with status 200), one that answers 500 with a body that
  is not JSON, and one that cannot be reached in time.
\<close>

definition post_status :: "int \<Rightarrow> string \<Rightarrow> request \<Rightarrow> response result" where
  "post_status code out req =
     Inr \<lparr>status_code = code, json_method = Inr (JObj [(''output'', JStr out)])\<rparr>"

definition post_ok :: "string \<Rightarrow> request \<Rightarrow> response result" where
  "post_ok out req =
     Inr \<lparr>status_code = 200, json_method = Inr (JObj [(''output'', JStr out)])\<rparr>"

definition post_status_error :: "request \<Rightarrow> response result" where
  "post_status_error req =
     Inr \<lparr>status_code = 500, json_method = Inl JSONDecodeError\<rparr>"

definition post_timeout :: "request \<Rightarrow> response result" where
  "post_timeout req = Inl Timeout"

text \<open>
  Payloads of the examples, as the endpoint sends them in \<open>output\<close>, and the JSON decoder
  on them: each text is paired with the value it denotes; any other text is taken not to
  be JSON.
\<close>

definition payload_e4 :: string where
  "payload_e4 = ''{\"move\": \"e4\"}''"

definition payload_resign :: string where
  "payload_resign = ''{\"move\": \"e4\", \"resign\": true}''"

definition payload_no_move :: string where
  "payload_no_move = ''{\"resign\": false}''"

definition payload_z9 :: string where
  "payload_z9 = ''{\"move\": \"z9\", \"illegal_moves\": [\"Ke2\", \"Qh5\"]}''"

definition payload_Ke2 :: string where
  "payload_Ke2 = ''{\"move\": \"Ke2\"}''"

definition payload_e4_after_Ke2 :: string where
  "payload_e4_after_Ke2 = ''{\"move\": \"e4\", \"illegal_moves\": [\"Ke2\"]}''"

definition payload_mixed_list :: string where
  "payload_mixed_list = ''{\"move\": \"e4\", \"illegal_moves\": [1, \"Ke2\"]}''"

definition example_payloads :: "(string \<times> json) list" where
  "example_payloads =
     [(payload_e4, JObj [(''move'', JStr ''e4'')]),
      (payload_resign, JObj [(''move'', JStr ''e4''), (''resign'', JBool True)]),
      (payload_no_move, JObj [(''resign'', JBool False)]),
      (payload_z9,
         JObj [(''move'', JStr ''z9''), (''illegal_moves'', JArr [JStr ''Ke2'', JStr ''Qh5''])]),
      (payload_Ke2, JObj [(''move'', JStr ''Ke2'')]),
      (payload_e4_after_Ke2,
         JObj [(''move'', JStr ''e4''), (''illegal_moves'', JArr [JStr ''Ke2''])]),
      (payload_mixed_list,
         JObj [(''move'', JStr ''e4''), (''illegal_moves'', JArr [JInt 1, JStr ''Ke2''])])]"

definition example_loads :: "string \<Rightarrow> json result" where
  "example_loads s =
     (case map_of example_payloads s of Some v \<Rightarrow> Inr v | None \<Rightarrow> Inl JSONDecodeError)"

section \<open>Properties of the local strategies\<close>

text \<open>
  The head of a list sorted by a key is an element of the list with the least key; on a
  non-empty list \<open>moves[0]\<close> does not raise.
\<close>

lemma index0_sort_key_min:
  assumes "xs \<noteq> []"
  shows "\<exists>m. index0 (sort_key f xs) = Inr m \<and> m \<in> set xs \<and> (\<forall>x\<in>set xs. f m \<le> f x)"
proof -
  from assms have "sort_key f xs \<noteq> []" by (metis length_0_conv length_sort)
  then obtain m ms where eq: "sort_key f xs = m # ms" by (cases "sort_key f xs") auto
  have "sorted (map f (sort_key f xs))" by (rule sorted_sort_key)
  with eq have "\<forall>x\<in>set ms. f m \<le> f x" by simp
  moreover have "set (m # ms) = set xs" using eq by (metis set_sort)
  ultimately show ?thesis using eq by (auto simp: index0_def)
qed

lemma choice_member: "seq \<noteq> [] \<Longrightarrow> \<exists>m\<in>set seq. choice r seq = Inr m"
  by (simp add: choice_def)

lemma least_key_unique:
  assumes "inj_on f S" "m \<in> S" "m' \<in> S" "\<forall>x\<in>S. f m \<le> f x" "\<forall>x\<in>S. f m' \<le> (f x :: 'k :: order)"
  shows "m = m'"
proof -
  have "f m = f m'" using assms by (metis order_antisym)
  then show ?thesis using assms(1-3) by (simp add: inj_on_def)
qed

text \<open>
  Claim C3. On every board with at least one legal move, each of the three local
  strategies (random for any draw \<open>r\<close>, alphabetical, first by UCI string) returns a
  \<open>PlayResult\<close> whose move is one of the board's legal moves.
\<close>

theorem local_strategies_return_legal_move:
  assumes "legal_moves board \<noteq> []"
  shows "(\<exists>m\<in>set (legal_moves board). RandomMove_search r board = Inr (PlayResult (Some m) None))
       \<and> (\<exists>m\<in>set (legal_moves board). Alphabetical_search board = Inr (PlayResult (Some m) None))
       \<and> (\<exists>m\<in>set (legal_moves board).
             FirstMove_search str_move board = Inr (PlayResult (Some m) None))"
proof (intro conjI)
  from choice_member [OF assms, of r]
  show "\<exists>m\<in>set (legal_moves board). RandomMove_search r board = Inr (PlayResult (Some m) None)"
    by (auto simp: RandomMove_search_def)
next
  from index0_sort_key_min [OF assms, of "san board"]
  show "\<exists>m\<in>set (legal_moves board). Alphabetical_search board = Inr (PlayResult (Some m) None)"
    by (auto simp: Alphabetical_search_def Let_def)
next
  from index0_sort_key_min [OF assms, of str_move]
  show "\<exists>m\<in>set (legal_moves board).
          FirstMove_search str_move board = Inr (PlayResult (Some m) None)"
    by (auto simp: FirstMove_search_def Let_def)
qed

lemma start_board_nonempty: "legal_moves start_board \<noteq> []"
  by (simp add: start_board_def start_position_def start_moves_def)

text \<open>
  Witness for C3: the starting position has legal moves, and all three strategies
  return one of them.
\<close>

theorem local_strategies_return_legal_move_witness:
  "legal_moves start_board \<noteq> []
   \<and> (\<exists>m\<in>set (legal_moves start_board). RandomMove_search 47 start_board = Inr (PlayResult (Some m) None))
   \<and> (\<exists>m\<in>set (legal_moves start_board). Alphabetical_search start_board = Inr (PlayResult (Some m) None))
   \<and> (\<exists>m\<in>set (legal_moves start_board).
             FirstMove_search (\<lambda>m. m) start_board = Inr (PlayResult (Some m) None))"
  using local_strategies_return_legal_move [OF start_board_nonempty, of 47 "\<lambda>m. m"]
        start_board_nonempty by simp

lemma alphabetical_order_independent:
  assumes "set (legal_moves board') = set (legal_moves board)"
      and "san board' = san board"
      and "inj_on (san board) (set (legal_moves board))"
  shows "Alphabetical_search board' = Alphabetical_search board"
proof (cases "legal_moves board = []")
  case True
  with assms(1) have "legal_moves board' = []" by simp
  with True show ?thesis by (simp add: Alphabetical_search_def index0_def)
next
  case False
  with assms(1) have ne: "legal_moves board' \<noteq> []" by auto
  obtain m where m: "index0 (sort_key (san board) (legal_moves board)) = Inr m"
      "m \<in> set (legal_moves board)" "\<forall>x\<in>set (legal_moves board). san board m \<le> san board x"
    using index0_sort_key_min [OF False, of "san board"] by blast
  obtain m' where m': "index0 (sort_key (san board) (legal_moves board')) = Inr m'"
      "m' \<in> set (legal_moves board')" "\<forall>x\<in>set (legal_moves board'). san board m' \<le> san board x"
    using index0_sort_key_min [OF ne, of "san board"] by blast
  have "m = m'"
    by (rule least_key_unique [of "san board" "set (legal_moves board)"]) (use assms m m' in auto)
  then show ?thesis
    using assms(2) m m' by (simp add: Alphabetical_search_def Let_def)
qed

lemma first_move_order_independent:
  assumes "set (legal_moves board') = set (legal_moves board)"
      and "inj_on str_move (set (legal_moves board))"
  shows "FirstMove_search str_move board' = FirstMove_search str_move board"
proof (cases "legal_moves board = []")
  case True
  with assms(1) have "legal_moves board' = []" by simp
  with True show ?thesis by (simp add: FirstMove_search_def index0_def)
next
  case False
  with assms(1) have ne: "legal_moves board' \<noteq> []" by auto
  obtain m where m: "index0 (sort_key str_move (legal_moves board)) = Inr m"
      "m \<in> set (legal_moves board)" "\<forall>x\<in>set (legal_moves board). str_move m \<le> str_move x"
    using index0_sort_key_min [OF False, of str_move] by blast
  obtain m' where m': "index0 (sort_key str_move (legal_moves board')) = Inr m'"
      "m' \<in> set (legal_moves board')" "\<forall>x\<in>set (legal_moves board'). str_move m' \<le> str_move x"
    using index0_sort_key_min [OF ne, of str_move] by blast
  have "m = m'"
    by (rule least_key_unique [of str_move "set (legal_moves board)"]) (use assms m m' in auto)
  then show ?thesis
    using m m' by (simp add: FirstMove_search_def Let_def)
qed

text \<open>
  Claim C8. The alphabetical strategy returns a legal move whose SAN is lexicographically
  least among the legal moves, and the first-move strategy one whose UCI string is least.
  The result is determined by the position: the strategies take nothing but the board
  (no random draw, no state), and on any board with the same set of legal moves and the
  same renderings, whatever the order in which the moves are listed, they return the
  identical result (renderings of distinct legal moves being distinct).
\<close>

theorem sorted_strategies_least_and_deterministic:
  "(legal_moves board \<noteq> [] \<longrightarrow>
      (\<exists>m\<in>set (legal_moves board).
          Alphabetical_search board = Inr (PlayResult (Some m) None)
          \<and> (\<forall>x\<in>set (legal_moves board). san board m \<le> san board x))
    \<and> (\<exists>m\<in>set (legal_moves board).
          FirstMove_search str_move board = Inr (PlayResult (Some m) None)
          \<and> (\<forall>x\<in>set (legal_moves board). str_move m \<le> str_move x)))
   \<and> (\<forall>board'. set (legal_moves board') = set (legal_moves board) \<and> san board' = san board
          \<and> inj_on (san board) (set (legal_moves board))
        \<longrightarrow> Alphabetical_search board' = Alphabetical_search board)
   \<and> (\<forall>board'. set (legal_moves board') = set (legal_moves board)
          \<and> inj_on str_move (set (legal_moves board))
        \<longrightarrow> FirstMove_search str_move board' = FirstMove_search str_move board)"
proof (intro conjI allI impI)
  assume ne: "legal_moves board \<noteq> []"
  from index0_sort_key_min [OF ne, of "san board"]
  show "\<exists>m\<in>set (legal_moves board).
            Alphabetical_search board = Inr (PlayResult (Some m) None)
            \<and> (\<forall>x\<in>set (legal_moves board). san board m \<le> san board x)"
    by (auto simp: Alphabetical_search_def Let_def)
next
  assume ne: "legal_moves board \<noteq> []"
  from index0_sort_key_min [OF ne, of str_move]
  show "\<exists>m\<in>set (legal_moves board).
            FirstMove_search str_move board = Inr (PlayResult (Some m) None)
            \<and> (\<forall>x\<in>set (legal_moves board). str_move m \<le> str_move x)"
    by (auto simp: FirstMove_search_def Let_def)
next
  fix board' :: "'a board"
  assume "set (legal_moves board') = set (legal_moves board) \<and> san board' = san board
              \<and> inj_on (san board) (set (legal_moves board))"
  then show "Alphabetical_search board' = Alphabetical_search board"
    by (intro alphabetical_order_independent) auto
next
  fix board' :: "'a board"
  assume "set (legal_moves board') = set (legal_moves board)
              \<and> inj_on str_move (set (legal_moves board))"
  then show "FirstMove_search str_move board' = FirstMove_search str_move board"
    by (intro first_move_order_independent) auto
qed

lemma start_alphabetical: "Alphabetical_search start_board = Inr (PlayResult (Some ''b1a3'') None)"
  by code_simp

lemma start_first: "FirstMove_search (\<lambda>m. m) start_board = Inr (PlayResult (Some ''a2a3'') None)"
  by code_simp

lemma start_san_inj: "inj_on (san start_board) (set (legal_moves start_board))"
proof -
  have "distinct (map (san start_board) (legal_moves start_board))" by code_simp
  then show ?thesis by (simp add: distinct_map)
qed

lemma start_uci_inj: "inj_on (\<lambda>m. m) (set (legal_moves start_board))"
  by simp

text \<open>
  Witness for C8: on the starting position the alphabetical strategy returns Na3 (b1a3)
  and the first-move strategy a2a3, each least among the twenty legal moves, and listing
  the legal moves in reverse order changes neither result.
\<close>

theorem sorted_strategies_least_and_deterministic_witness:
  "legal_moves start_board \<noteq> []
   \<and> Alphabetical_search start_board = Inr (PlayResult (Some ''b1a3'') None)
   \<and> list_all (\<lambda>x. san start_board ''b1a3'' \<le> san start_board x) (legal_moves start_board)
   \<and> FirstMove_search (\<lambda>m. m) start_board = Inr (PlayResult (Some ''a2a3'') None)
   \<and> list_all (\<lambda>x. ''a2a3'' \<le> x) (legal_moves start_board)
   \<and> Alphabetical_search (start_board\<lparr>legal_moves := rev (legal_moves start_board)\<rparr>)
       = Alphabetical_search start_board
   \<and> FirstMove_search (\<lambda>m. m) (start_board\<lparr>legal_moves := rev (legal_moves start_board)\<rparr>)
       = FirstMove_search (\<lambda>m. m) start_board"
proof -
  note T = sorted_strategies_least_and_deterministic [of start_board "\<lambda>m. m"]
  note ne = start_board_nonempty
  let ?rev = "start_board\<lparr>legal_moves := rev (legal_moves start_board)\<rparr>"
  from T ne obtain m where m: "Alphabetical_search start_board = Inr (PlayResult (Some m) None)"
      "\<forall>x\<in>set (legal_moves start_board). san start_board m \<le> san start_board x"
    by blast
  from m(1) have "m = ''b1a3''" by (simp add: start_alphabetical PlayResult_def)
  with m have a: "list_all (\<lambda>x. san start_board ''b1a3'' \<le> san start_board x) (legal_moves start_board)"
    by (simp add: list_all_iff)
  from T ne obtain u where u: "FirstMove_search (\<lambda>m. m) start_board = Inr (PlayResult (Some u) None)"
      "\<forall>x\<in>set (legal_moves start_board). u \<le> x"
    by blast
  from u(1) have "u = ''a2a3''" by (simp add: start_first PlayResult_def)
  with u have b: "list_all (\<lambda>x. ''a2a3'' \<le> x) (legal_moves start_board)"
    by (simp add: list_all_iff)
  have hs: "set (legal_moves ?rev) = set (legal_moves start_board) \<and> san ?rev = san start_board
        \<and> inj_on (san start_board) (set (legal_moves start_board))"
    using start_san_inj by simp
  have hu: "set (legal_moves ?rev) = set (legal_moves start_board)
        \<and> inj_on (\<lambda>m. m) (set (legal_moves start_board))"
    by simp
  from T hs have c: "Alphabetical_search ?rev = Alphabetical_search start_board" by blast
  from T hu have d: "FirstMove_search (\<lambda>m. m) ?rev = FirstMove_search (\<lambda>m. m) start_board" by blast
  from start_board_nonempty start_alphabetical a start_first b c d show ?thesis by blast
qed

section \<open>How the remote resolver computes\<close>

text \<open>
  \<open>str_nat\<close> writes a number in decimal: reading its digits back gives the number.
\<close>

lemma digit_char_value: "d < 10 \<Longrightarrow> (of_char (digit_char d) :: nat) = 48 + d"
  by (simp add: digit_char_def)

lemma str_nat_decimal:
  "foldl (\<lambda>a c. 10 * a + (of_char c - 48)) 0 (str_nat n) = n"
proof (induction n rule: str_nat.induct)
  case (1 n)
  show ?case
  proof (cases "n < 10")
    case True
    then show ?thesis by (subst str_nat.simps) (simp add: digit_char_value)
  next
    case False
    then have "str_nat n = str_nat (n div 10) @ [digit_char (n mod 10)]"
      by (subst str_nat.simps) simp
    moreover have "(of_char (digit_char (n mod 10)) :: nat) = 48 + n mod 10"
      by (rule digit_char_value) simp
    ultimately show ?thesis using 1 [OF False] by simp
  qed
qed

lemma all_strs_map_JStr: "all_strs (map JStr ss) = Some ss"
  by (induction ss) auto

lemma illegal_moves_message_strs:
  "illegal_moves_message mc (JArr (map JStr ss)) =
     Inr (''[Move '' @ str_int mc @ ''] tried '' @ str_nat (length ss)
          @ '' illegal move'' @ (if length ss > 1 then ''s'' else [])
          @ '':  '' @ join_strs '', '' ss)"
  by (simp add: illegal_moves_message_def all_strs_map_JStr)


lemma py_get_Inr_obj: "py_get result k = Inr v \<Longrightarrow> \<exists>kvs. result = JObj kvs"
  by (cases result) (auto simp: py_get_def)

lemma py_get_some_field:
  assumes "py_get result k = Inr v"
  shows "\<exists>w. py_get result k' = Inr w"
  using py_get_Inr_obj [OF assms] by (auto simp: py_get_def)

lemma posts_append: "posts (xs @ ys) = posts xs @ posts ys"
  by (induction xs rule: posts.induct) auto


text \<open>
  Once the endpoint has answered and the answer has decoded to an object, \<open>search\<close> is
  determined by the three fields it reads. The next lemmas give its result when
  \<open>illegal_moves\<close> is a non-empty list of strings (two chat messages are sent) and when
  it is falsy (none is).
\<close>

lemma search_decoded:
  assumes "post (request_of cfg g b) = Inr response"
      and "decode loads response = Inr result"
      and "py_get result ''move'' = Inr move_str"
      and "py_get result ''illegal_moves'' = Inr ims"
      and "py_get result ''resign'' = Inr resign"
  shows "search cfg post loads g b tr =
     (case (if truthy ims
            then (case illegal_moves_message (fullmove_number b) ims of
                    Inl e \<Rightarrow> Inl e
                  | Inr message \<Rightarrow>
                      Inr (tr @ [Post (request_of cfg g b), Chat ''player'' message,
                                 Chat ''spectator'' message]))
            else Inr (tr @ [Post (request_of cfg g b)])) of
        Inl e \<Rightarrow> (Inl e, tr @ [Post (request_of cfg g b)])
      | Inr tr' \<Rightarrow>
          if truthy resign then (Inr (PlayResult_resigned None None True), tr')
          else (case board_parse_san b move_str of
                  Inl e \<Rightarrow> (Inl e, tr')
                | Inr mv \<Rightarrow> (Inr (PlayResult (Some mv) None), tr')))"
  using assms by (simp add: search_def Let_def send_message_def split: sum.splits)

lemma search_strs:
  assumes "post (request_of cfg g b) = Inr response"
      and "decode loads response = Inr result"
      and "py_get result ''move'' = Inr move_str"
      and "py_get result ''illegal_moves'' = Inr (JArr (map JStr ss))"
      and "py_get result ''resign'' = Inr resign"
      and "ss \<noteq> []"
      and "message = ''[Move '' @ str_int (fullmove_number b) @ ''] tried '' @ str_nat (length ss)
                     @ '' illegal move'' @ (if length ss > 1 then ''s'' else [])
                     @ '':  '' @ join_strs '', '' ss"
      and "tr' = tr @ [Post (request_of cfg g b), Chat ''player'' message, Chat ''spectator'' message]"
  shows "search cfg post loads g b tr =
     (if truthy resign then (Inr (PlayResult_resigned None None True), tr')
      else (case board_parse_san b move_str of
              Inl e \<Rightarrow> (Inl e, tr')
            | Inr mv \<Rightarrow> (Inr (PlayResult (Some mv) None), tr')))"
proof -
  have "search cfg post loads g b tr = 
     (case (if truthy (JArr (map JStr ss))
            then (case illegal_moves_message (fullmove_number b) (JArr (map JStr ss)) of
                    Inl e \<Rightarrow> Inl e
                  | Inr message \<Rightarrow>
                      Inr (tr @ [Post (request_of cfg g b), Chat ''player'' message,
                                 Chat ''spectator'' message]))
            else Inr (tr @ [Post (request_of cfg g b)])) of
        Inl e \<Rightarrow> (Inl e, tr @ [Post (request_of cfg g b)])
      | Inr tr' \<Rightarrow>
          if truthy resign then (Inr (PlayResult_resigned None None True), tr')
          else (case board_parse_san b move_str of
                  Inl e \<Rightarrow> (Inl e, tr')
                | Inr mv \<Rightarrow> (Inr (PlayResult (Some mv) None), tr')))"
    using assms(1-5) by (rule search_decoded)
  moreover have "truthy (JArr (map JStr ss))" using assms(6) by simp
  ultimately show ?thesis unfolding assms(8) assms(7)
    by (simp only: illegal_moves_message_strs if_True sum.case)
qed

lemma search_quiet:
  assumes "post (request_of cfg g b) = Inr response"
      and "decode loads response = Inr result"
      and "py_get result ''move'' = Inr move_str"
      and "py_get result ''illegal_moves'' = Inr ims"
      and "py_get result ''resign'' = Inr resign"
      and "\<not> truthy ims"
      and "tr' = tr @ [Post (request_of cfg g b)]"
  shows "search cfg post loads g b tr =
     (if truthy resign then (Inr (PlayResult_resigned None None True), tr')
      else (case board_parse_san b move_str of
              Inl e \<Rightarrow> (Inl e, tr')
            | Inr mv \<Rightarrow> (Inr (PlayResult (Some mv) None), tr')))"
proof -
  have "search cfg post loads g b tr = 
     (case (if truthy ims
            then (case illegal_moves_message (fullmove_number b) ims of
                    Inl e \<Rightarrow> Inl e
                  | Inr message \<Rightarrow>
                      Inr (tr @ [Post (request_of cfg g b), Chat ''player'' message,
                                 Chat ''spectator'' message]))
            else Inr (tr @ [Post (request_of cfg g b)])) of
        Inl e \<Rightarrow> (Inl e, tr @ [Post (request_of cfg g b)])
      | Inr tr' \<Rightarrow>
          if truthy resign then (Inr (PlayResult_resigned None None True), tr')
          else (case board_parse_san b move_str of
                  Inl e \<Rightarrow> (Inl e, tr')
                | Inr mv \<Rightarrow> (Inr (PlayResult (Some mv) None), tr')))"
    using assms(1-5) by (rule search_decoded)
  then show ?thesis unfolding assms(7) using assms(6)
    by (simp only: if_False sum.case)
qed

lemma search_outcome:
  assumes "post (request_of cfg g b) = Inr response"
      and "decode loads response = Inr result"
      and "py_get result ''move'' = Inr move_str"
      and "py_get result ''resign'' = Inr resign"
      and "py_get result ''illegal_moves'' = Inr JNull
           \<or> (\<exists>ss. py_get result ''illegal_moves'' = Inr (JArr (map JStr ss)))"
  shows "fst (search cfg post loads g b tr) =
     (if truthy resign then Inr (PlayResult_resigned None None True)
      else (case board_parse_san b move_str of
              Inl e \<Rightarrow> Inl e
            | Inr mv \<Rightarrow> Inr (PlayResult (Some mv) None)))"
proof -
  from assms(5) consider
      (quiet) ims where "py_get result ''illegal_moves'' = Inr ims" "\<not> truthy ims"
    | (strs) ss where "py_get result ''illegal_moves'' = Inr (JArr (map JStr ss))" "ss \<noteq> []"
  proof (elim disjE exE)
    assume "py_get result ''illegal_moves'' = Inr JNull"
    then show ?thesis using that(1) [of JNull] by simp
  next
    fix ss assume h: "py_get result ''illegal_moves'' = Inr (JArr (map JStr ss))"
    show ?thesis
    proof (cases "ss = []")
      case True
      with h show ?thesis using that(1) [of "JArr []"] by simp
    next
      case False
      with h show ?thesis using that(2) by blast
    qed
  qed
  then show ?thesis
  proof cases
    case quiet
    show ?thesis
      by (simp add: search_quiet [where post = post, OF assms(1,2,3) quiet(1) assms(4) quiet(2) refl]
          split: sum.splits)
  next
    case strs
    show ?thesis
      by (simp add: search_strs [where post = post, OF assms(1,2,3) strs(1) assms(4) strs(2) refl refl]
          split: sum.splits)
  qed
qed

lemma search_strs_trace:
  assumes "post (request_of cfg g b) = Inr response"
      and "decode loads response = Inr result"
      and "py_get result ''illegal_moves'' = Inr (JArr (map JStr ss))"
      and "ss \<noteq> []"
      and "message = ''[Move '' @ str_int (fullmove_number b) @ ''] tried '' @ str_nat (length ss)
                     @ '' illegal move'' @ (if length ss > 1 then ''s'' else [])
                     @ '':  '' @ join_strs '', '' ss"
  shows "snd (search cfg post loads g b tr)
         = tr @ [Post (request_of cfg g b), Chat ''player'' message, Chat ''spectator'' message]"
proof -
  obtain move_str where mv: "py_get result ''move'' = Inr move_str"
    using py_get_some_field [OF assms(3)] by blast
  obtain resign where rs: "py_get result ''resign'' = Inr resign"
    using py_get_some_field [OF assms(3)] by blast
  show ?thesis
    by (simp add: search_strs [where post = post, OF assms(1,2) mv assms(3) rs assms(4,5) refl]
        split: sum.splits)
qed


lemma search_posts_once:
  "posts (snd (search cfg post loads g b tr)) = posts tr @ [request_of cfg g b]"
  by (auto simp: search_def Let_def send_message_def posts_append split: sum.splits)

lemma search_post_raises:
  assumes "post (request_of cfg g b) = Inl e"
  shows "search cfg post loads g b tr = (Inl e, tr @ [Post (request_of cfg g b)])"
  using assms by (simp add: search_def Let_def)

text \<open>
  \<open>strip\<close> removes whitespace at both ends and nothing else: the string is the stripped
  string between two runs of whitespace, the stripped string neither begins nor ends
  with whitespace, and a string that already does not is left as it is.
\<close>

lemma strip_decompose:
  "\<exists>lead trail. s = lead @ strip s @ trail \<and> list_all is_space lead \<and> list_all is_space trail"
proof -
  define t where "t = dropWhile is_space s"
  have a: "s = takeWhile is_space s @ t" by (simp add: t_def)
  have "t = rev (dropWhile is_space (rev t)) @ rev (takeWhile is_space (rev t))"
    by (metis rev_append rev_rev_ident takeWhile_dropWhile_id)
  then have b: "t = strip s @ rev (takeWhile is_space (rev t))"
    unfolding strip_def t_def .
  have c: "list_all is_space (takeWhile is_space s)"
    by (simp add: list_all_iff) (meson set_takeWhileD)
  have d: "list_all is_space (rev (takeWhile is_space (rev t)))"
    by (simp add: list_all_iff) (meson set_takeWhileD)
  from a b have "s = takeWhile is_space s @ strip s @ rev (takeWhile is_space (rev t))" by simp
  with c d show ?thesis by blast
qed

lemma strip_ends:
  assumes "strip s \<noteq> []"
  shows "\<not> is_space (hd (strip s)) \<and> \<not> is_space (last (strip s))"
proof -
  define t where "t = dropWhile is_space s"
  define u where "u = dropWhile is_space (rev t)"
  have su: "strip s = rev u" by (simp add: strip_def t_def u_def)
  with assms have une: "u \<noteq> []" by simp
  then have "\<not> is_space (hd u)" unfolding u_def by (rule hd_dropWhile)
  then have l: "\<not> is_space (last (strip s))" using su une by (simp add: last_rev)
  have "rev t = takeWhile is_space (rev t) @ u" by (simp add: u_def)
  then have "rev (rev t) = rev (takeWhile is_space (rev t) @ u)" by simp
  then have tu: "t = rev u @ rev (takeWhile is_space (rev t))" by simp
  then have tne: "t \<noteq> []" using une by auto
  then have "\<not> is_space (hd t)" unfolding t_def by (rule hd_dropWhile)
  moreover have "hd t = hd (rev u)" using tu une by (metis hd_append2 rev_is_Nil_conv)
  ultimately show ?thesis using l su by simp
qed

lemma strip_unchanged:
  assumes "s \<noteq> []" and "\<not> is_space (hd s)" and "\<not> is_space (last s)"
  shows "strip s = s"
proof -
  from assms(1,2) have a: "dropWhile is_space s = s" by (cases s) auto
  from assms(1,3) have "dropWhile is_space (rev s) = rev s"
    by (cases "rev s") (auto simp: last_rev [symmetric] hd_rev)
  with a show ?thesis by (simp add: strip_def)
qed

text \<open>
  A list with an item that is not a string makes the diagnostic text fail with
  \<open>TypeError\<close>, before anything is sent.
\<close>

lemma all_strs_Some: "all_strs xs = Some ss \<Longrightarrow> xs = map JStr ss"
proof (induction xs arbitrary: ss)
  case Nil
  then show ?case by simp
next
  case (Cons x xs)
  then show ?case
    by (cases x) (auto split: option.splits)
qed

lemma illegal_moves_message_not_strs:
  assumes "all_strs xs = None"
  shows "illegal_moves_message mc (JArr xs) = Inl TypeError"
  using assms by (simp add: illegal_moves_message_def)

lemma search_message_raises:
  assumes "post (request_of cfg g b) = Inr response"
      and "decode loads response = Inr result"
      and "py_get result ''illegal_moves'' = Inr (JArr xs)"
      and "xs \<noteq> []"
      and "all_strs xs = None"
  shows "search cfg post loads g b tr = (Inl TypeError, tr @ [Post (request_of cfg g b)])"
proof -
  obtain move_str where mv: "py_get result ''move'' = Inr move_str"
    using py_get_some_field [OF assms(3)] by blast
  obtain resign where rs: "py_get result ''resign'' = Inr resign"
    using py_get_some_field [OF assms(3)] by blast
  have "search cfg post loads g b tr =
     (case (if truthy (JArr xs)
            then (case illegal_moves_message (fullmove_number b) (JArr xs) of
                    Inl e \<Rightarrow> Inl e
                  | Inr message \<Rightarrow>
                      Inr (tr @ [Post (request_of cfg g b), Chat ''player'' message,
                                 Chat ''spectator'' message]))
            else Inr (tr @ [Post (request_of cfg g b)])) of
        Inl e \<Rightarrow> (Inl e, tr @ [Post (request_of cfg g b)])
      | Inr tr' \<Rightarrow>
          if truthy resign then (Inr (PlayResult_resigned None None True), tr')
          else (case board_parse_san b move_str of
                  Inl e \<Rightarrow> (Inl e, tr')
                | Inr mv \<Rightarrow> (Inr (PlayResult (Some mv) None), tr')))"
    using assms(1,2) mv assms(3) rs by (rule search_decoded)
  then show ?thesis
    using assms(4) by (simp add: illegal_moves_message_not_strs [OF assms(5)])
qed

text \<open>
  The status of the response matters only through \<open>raise_for_status\<close>.
\<close>

lemma decode_status:
  assumes "\<not> (400 \<le> status_code response \<and> status_code response < 600)"
  shows "decode loads response = decode loads (response\<lparr>status_code := 200\<rparr>)"
  using assms by (auto simp: decode_def raise_for_status_def)

lemma search_status_error:
  assumes "post (request_of cfg g b) = Inr response"
      and "400 \<le> status_code response \<and> status_code response < 600"
  shows "search cfg post loads g b tr = (Inl HTTPError, tr @ [Post (request_of cfg g b)])"
  using assms by (simp add: search_def Let_def decode_def raise_for_status_def)







section \<open>The example answers\<close>

text \<open>
  What the example endpoint and decoder answer, and what the parser says on the starting
  position.
\<close>

lemma example_post_ok:
  "post_ok out (request_of cfg g b)
   = Inr \<lparr>status_code = 200, json_method = Inr (JObj [(''output'', JStr out)])\<rparr>"
  by (simp add: post_ok_def)

lemma example_decode:
  assumes "map_of example_payloads out = Some v"
  shows "decode example_loads
           \<lparr>status_code = 200, json_method = Inr (JObj [(''output'', JStr out)])\<rparr> = Inr v"
  using assms by (simp add: decode_def raise_for_status_def py_get_def json_loads_def example_loads_def)

lemmas payload_defs =
  payload_e4_def payload_resign_def payload_no_move_def payload_z9_def payload_Ke2_def
  payload_e4_after_Ke2_def

lemma lookup_e4:
  "map_of example_payloads payload_e4 = Some (JObj [(''move'', JStr ''e4'')])"
  by (simp add: example_payloads_def payload_defs)

lemma lookup_no_move:
  "map_of example_payloads payload_no_move = Some (JObj [(''resign'', JBool False)])"
  by (simp add: example_payloads_def payload_defs)

lemma lookup_z9:
  "map_of example_payloads payload_z9
   = Some (JObj [(''move'', JStr ''z9''), (''illegal_moves'', JArr [JStr ''Ke2'', JStr ''Qh5''])])"
  by (simp add: example_payloads_def payload_defs)



lemma start_parse_z9: "parse_san start_board ''z9'' = Inl InvalidMoveError"
  by code_simp


lemma start_fullmove: "fullmove_number start_board = 1"
  by (simp add: start_board_def)

lemma str_int_examples:
  "str_int 1 = ''1''" "str_int 1500 = ''1500''" "str_int 1612 = ''1612''"
  "str_nat (Suc 0) = ''1''" "str_nat (Suc (Suc 0)) = ''2''"
  by code_simp+

lemma z9_fields:
  "py_get (JObj [(''move'', JStr ''z9''), (''illegal_moves'', JArr [JStr ''Ke2'', JStr ''Qh5''])]) ''move''
     = Inr (JStr ''z9'')"
  "py_get (JObj [(''move'', JStr ''z9''), (''illegal_moves'', JArr [JStr ''Ke2'', JStr ''Qh5''])]) ''resign''
     = Inr JNull"
  "py_get (JObj [(''move'', JStr ''z9''), (''illegal_moves'', JArr [JStr ''Ke2'', JStr ''Qh5''])])
     ''illegal_moves'' = Inr (JArr (map JStr [''Ke2'', ''Qh5'']))"
  by (simp_all add: py_get_def)



lemma e4_fields:
  "py_get (JObj [(''move'', JStr ''e4'')]) ''move'' = Inr (JStr ''e4'')"
  "py_get (JObj [(''move'', JStr ''e4'')]) ''resign'' = Inr JNull"
  "py_get (JObj [(''move'', JStr ''e4'')]) ''illegal_moves'' = Inr JNull"
  by (simp_all add: py_get_def)

lemma start_parse_e4: "parse_san start_board ''e4'' = Inr ''e2e4''"
  by code_simp


lemma lookup_mixed_list:
  "map_of example_payloads payload_mixed_list
   = Some (JObj [(''move'', JStr ''e4''), (''illegal_moves'', JArr [JInt 1, JStr ''Ke2''])])"
  by (simp add: example_payloads_def payload_defs payload_mixed_list_def)


lemma start_parser_examples:
  "chess_parse_san start_position ''Qh5'' = Inl IllegalMoveError"
  "chess_parse_san start_position ''O-O'' = Inl IllegalMoveError"
  "chess_parse_san start_position ''--'' = Inr ''0000''"
  "chess_parse_san start_position ''Nf3'' = Inr ''g1f3''"
  "chess_parse_san start_position ''e2e4'' = Inr ''e2e4''"
  by code_simp+

lemma start_parser_inverts_san:
  "list_all (\<lambda>m. chess_parse_san start_position (san start_board m) = Inr m)
     (legal_moves start_board)"
  by code_simp

lemma open_game_parser_inverts_san:
  "list_all (\<lambda>m. chess_parse_san open_game_position (san open_game_board m) = Inr m)
     (legal_moves open_game_board)"
  by code_simp

section \<open>Properties of the remote resolver\<close>

text \<open>
  Claim C7. The request that every invocation posts has the body \<open>{"input": {...}}\<close>
  whose \<open>pgn\<close> is the main-line text of the board after the two tags
  \<open>[WhiteElo "..."]\<close> and \<open>[BlackElo "..."]\<close> with the players' ratings and a blank line,
  whose \<open>color\<close> and \<open>move_count\<close> are the game's \<open>my_color\<close> and the board's
  \<open>fullmove_number\<close>, and whose other fields are exactly temperature 0.7, top_p 0.9,
  top_k 1000, num_beams 1, do_sample true and use_cache true; its headers are
  \<open>Authorization: Bearer <key>\<close> and \<open>Content-Type: application/json\<close>, and it goes to the
  configured endpoint. The main-line text is sent stripped: it is the board's text
  without the whitespace before and after it, and nothing else is removed.
\<close>

theorem request_form:
  "\<exists>pgn input req rest lead trail.
      pgn = ''[WhiteElo '' @ [dquote] @ str_int (rating (white lichess_game)) @ [dquote] @ '']''
            @ [newline]
            @ ''[BlackElo '' @ [dquote] @ str_int (rating (black lichess_game)) @ [dquote] @ '']''
            @ [newline] @ [newline] @ strip (mainline_moves board)
    \<and> mainline_moves board = lead @ strip (mainline_moves board) @ trail
    \<and> list_all is_space lead \<and> list_all is_space trail
    \<and> (strip (mainline_moves board) = []
        \<or> (\<not> is_space (hd (strip (mainline_moves board)))
           \<and> \<not> is_space (last (strip (mainline_moves board)))))
    \<and> input = [(''pgn'', JStr pgn),
                (''color'', JStr (my_color lichess_game)),
                (''move_count'', JInt (fullmove_number board)),
                (''temperature'', JFloat (Float (7 / 10))),
                (''top_p'', JFloat (Float (9 / 10))),
                (''top_k'', JInt 1000),
                (''num_beams'', JInt 1),
                (''do_sample'', JBool True),
                (''use_cache'', JBool True)]
    \<and> json_body req = JObj [(''input'', JObj input)]
    \<and> headers req = [(''Authorization'', ''Bearer '' @ RUNPOD_API_KEY cfg),
                      (''Content-Type'', ''application/json'')]
    \<and> url req = RUNPOD_RUNSYNC_ENDPOINT cfg
    \<and> snd (search cfg post loads lichess_game board tr) = tr @ Post req # rest
    \<and> posts (snd (search cfg post loads lichess_game board tr)) = posts tr @ [req]"
proof -
  have "\<exists>rest. snd (search cfg post loads lichess_game board tr)
          = tr @ Post (request_of cfg lichess_game board) # rest"
    by (auto simp: search_def Let_def send_message_def split: sum.splits)
  then obtain rest where r: "snd (search cfg post loads lichess_game board tr)
          = tr @ Post (request_of cfg lichess_game board) # rest" by blast
  obtain lead trail where lt: "mainline_moves board = lead @ strip (mainline_moves board) @ trail"
      "list_all is_space lead" "list_all is_space trail"
    using strip_decompose [of "mainline_moves board"] by blast
  have ends: "strip (mainline_moves board) = []
        \<or> (\<not> is_space (hd (strip (mainline_moves board)))
           \<and> \<not> is_space (last (strip (mainline_moves board))))"
    using strip_ends [of "mainline_moves board"] by blast
  show ?thesis
    apply (rule exI, rule exI, rule exI [of _ "request_of cfg lichess_game board"],
        rule exI [of _ rest], rule exI [of _ lead], rule exI [of _ trail])
    apply (intro conjI)
              apply (rule refl)
             apply (rule lt(1))
            apply (rule lt(2))
           apply (rule lt(3))
          apply (rule ends)
         apply (rule refl)
        apply (simp add: request_of_def Let_def)
       apply (simp add: request_of_def Let_def)
      apply (simp add: request_of_def Let_def)
     apply (rule r)
    apply (rule search_posts_once)
    done
qed

text \<open>
  Witness for C7: the request posted for the example game after 1. e4 e5; its \<open>pgn\<close>
  ends with the main line \<open>1. e4 e5\<close>.
\<close>

theorem request_form_witness:
  "mainline_moves open_game_board = ''1. e4 e5''
   \<and> strip (mainline_moves open_game_board) = ''1. e4 e5''
   \<and> map url (posts (snd (search example_config (post_ok payload_Ke2) example_loads example_game
                          open_game_board [])))
     = [''https://api.example/runsync'']
   \<and> map headers (posts (snd (search example_config (post_ok payload_Ke2) example_loads example_game
                                  open_game_board [])))
     = [[(''Authorization'', ''Bearer secret''), (''Content-Type'', ''application/json'')]]
   \<and> map json_body (posts (snd (search example_config (post_ok payload_Ke2) example_loads example_game
                                    open_game_board [])))
     = [JObj [(''input'', JObj [
          (''pgn'', JStr (''[WhiteElo '' @ [dquote] @ ''1500'' @ [dquote] @ '']'' @ [newline]
                          @ ''[BlackElo '' @ [dquote] @ ''1612'' @ [dquote] @ '']'' @ [newline]
                          @ [newline] @ ''1. e4 e5'')),
          (''color'', JStr ''white''),
          (''move_count'', JInt 2),
          (''temperature'', JFloat (Float (7 / 10))),
          (''top_p'', JFloat (Float (9 / 10))),
          (''top_k'', JInt 1000),
          (''num_beams'', JInt 1),
          (''do_sample'', JBool True),
          (''use_cache'', JBool True)])]]"
proof -
  from request_form [of example_game open_game_board example_config "post_ok payload_Ke2"
      example_loads "[]"]
  obtain pgn input req rest lead trail where
      p: "pgn = ''[WhiteElo '' @ [dquote] @ str_int (rating (white example_game)) @ [dquote] @ '']''
            @ [newline]
            @ ''[BlackElo '' @ [dquote] @ str_int (rating (black example_game)) @ [dquote] @ '']''
            @ [newline] @ [newline] @ strip (mainline_moves open_game_board)"
    and d: "mainline_moves open_game_board = lead @ strip (mainline_moves open_game_board) @ trail"
    and sl: "list_all is_space lead" and st: "list_all is_space trail"
    and i: "input = [(''pgn'', JStr pgn),
                (''color'', JStr (my_color example_game)),
                (''move_count'', JInt (fullmove_number open_game_board)),
                (''temperature'', JFloat (Float (7 / 10))),
                (''top_p'', JFloat (Float (9 / 10))),
                (''top_k'', JInt 1000),
                (''num_beams'', JInt 1),
                (''do_sample'', JBool True),
                (''use_cache'', JBool True)]"
    and j: "json_body req = JObj [(''input'', JObj input)]"
    and h: "headers req = [(''Authorization'', ''Bearer '' @ RUNPOD_API_KEY example_config),
                      (''Content-Type'', ''application/json'')]"
    and u: "url req = RUNPOD_RUNSYNC_ENDPOINT example_config"
    and r: "snd (search example_config (post_ok payload_Ke2) example_loads example_game
                   open_game_board []) = [] @ Post req # rest"
    and q: "posts (snd (search example_config (post_ok payload_Ke2) example_loads example_game
                          open_game_board [])) = posts [] @ [req]"
    by blast
  have ml: "mainline_moves open_game_board = ''1. e4 e5''"
    by (simp add: open_game_board_def)
  have "lead = [] \<and> trail = []"
  proof -
    have ns: "list_all (\<lambda>c. \<not> is_space c) [CHR ''1'', CHR ''5'']"
      by (simp add: is_space_def)
    have "lead = []"
    proof (cases lead)
      case Nil
      then show ?thesis .
    next
      case (Cons c cs)
      with d ml have "c = CHR ''1''" by simp
      with Cons sl ns show ?thesis by simp
    qed
    moreover have "trail = []"
    proof (cases trail rule: rev_cases)
      case Nil
      then show ?thesis .
    next
      case (snoc cs c)
      with d ml have "last (''1. e4 e5'') = last ((lead @ strip (mainline_moves open_game_board) @ cs) @ [c])"
        by simp
      then have "c = CHR ''5''" by simp
      with snoc st ns show ?thesis by simp
    qed
    ultimately show ?thesis by simp
  qed
  with d ml have main: "strip (mainline_moves open_game_board) = ''1. e4 e5''" by simp
  have ratings: "rating (white example_game) = 1500" "rating (black example_game) = 1612"
      "my_color example_game = ''white''"
    by (simp_all add: example_game_def)
  have cfg: "RUNPOD_API_KEY example_config = ''secret''"
      "RUNPOD_RUNSYNC_ENDPOINT example_config = ''https://api.example/runsync''"
    by (simp_all add: example_config_def)
  have fm: "fullmove_number open_game_board = 2" by (simp add: open_game_board_def)
  note main' = main [unfolded ml]
  show ?thesis
    by (simp add: q u h j i p ratings main' ml cfg fm str_int_examples)
qed

text \<open>
  Claim C5, as amended. Every invocation of \<open>search\<close> issues exactly one POST request,
  whatever the endpoint answers. When \<open>requests.post\<close> raises (timeout, connection
  error), or the response has a client or server error status (400 to 599), \<open>search\<close>
  fails with that error, and the one request is all it has done: no second request, no
  chat message. A response with any other status, 2xx or not, passes
  \<open>raise_for_status\<close> and is handled exactly as a 200 response with the same body.
\<close>

theorem one_request_no_retry:
  "posts (snd (search cfg post loads lichess_game board tr))
     = posts tr @ [request_of cfg lichess_game board]
   \<and> (\<forall>e. post (request_of cfg lichess_game board) = Inl e
          \<longrightarrow> search cfg post loads lichess_game board tr
              = (Inl e, tr @ [Post (request_of cfg lichess_game board)]))
   \<and> (\<forall>response. post (request_of cfg lichess_game board) = Inr response
              \<and> 400 \<le> status_code response \<and> status_code response < 600
          \<longrightarrow> search cfg post loads lichess_game board tr
              = (Inl HTTPError, tr @ [Post (request_of cfg lichess_game board)]))
   \<and> (\<forall>response. post (request_of cfg lichess_game board) = Inr response
              \<and> (status_code response < 400 \<or> 600 \<le> status_code response)
          \<longrightarrow> search cfg post loads lichess_game board tr
              = search cfg (\<lambda>req. Inr (response\<lparr>status_code := 200\<rparr>)) loads lichess_game board tr)"
proof (intro conjI allI impI)
  show "posts (snd (search cfg post loads lichess_game board tr))
     = posts tr @ [request_of cfg lichess_game board]"
    by (rule search_posts_once)
next
  fix e assume "post (request_of cfg lichess_game board) = Inl e"
  then show "search cfg post loads lichess_game board tr
              = (Inl e, tr @ [Post (request_of cfg lichess_game board)])"
    by (rule search_post_raises)
next
  fix response
  assume "post (request_of cfg lichess_game board) = Inr response
              \<and> 400 \<le> status_code response \<and> status_code response < 600"
  then show "search cfg post loads lichess_game board tr
              = (Inl HTTPError, tr @ [Post (request_of cfg lichess_game board)])"
    by (intro search_status_error) auto
next
  fix response
  assume h: "post (request_of cfg lichess_game board) = Inr response
              \<and> (status_code response < 400 \<or> 600 \<le> status_code response)"
  then have "decode loads response = decode loads (response\<lparr>status_code := 200\<rparr>)"
    by (intro decode_status) auto
  with h show "search cfg post loads lichess_game board tr
              = search cfg (\<lambda>req. Inr (response\<lparr>status_code := 200\<rparr>)) loads lichess_game board tr"
    by (simp add: search_def Let_def)
qed

text \<open>
  Witness for C5: a timeout and a status 500 each surface as the error after a single
  request, a status 300 is handled as a 200, and a successful invocation has issued a
  single request as well.
\<close>

theorem one_request_no_retry_witness:
  "post_timeout (request_of example_config example_game start_board) = Inl Timeout
   \<and> search example_config post_timeout example_loads example_game start_board []
       = (Inl Timeout, [Post (request_of example_config example_game start_board)])
   \<and> post_status_error (request_of example_config example_game start_board)
       = Inr \<lparr>status_code = 500, json_method = Inl JSONDecodeError\<rparr>
   \<and> search example_config post_status_error example_loads example_game start_board []
       = (Inl HTTPError, [Post (request_of example_config example_game start_board)])
   \<and> post_status 300 payload_e4 (request_of example_config example_game start_board)
       = Inr \<lparr>status_code = 300, json_method = Inr (JObj [(''output'', JStr payload_e4)])\<rparr>
   \<and> search example_config (post_status 300 payload_e4) example_loads example_game start_board []
       = search example_config (post_ok payload_e4) example_loads example_game start_board []
   \<and> posts (snd (search example_config (post_ok payload_e4) example_loads example_game start_board []))
       = [request_of example_config example_game start_board]"
proof -
  have h1: "post_timeout (request_of example_config example_game start_board) = Inl Timeout"
    by (simp add: post_timeout_def)
  have h2: "post_status_error (request_of example_config example_game start_board)
       = Inr \<lparr>status_code = 500, json_method = Inl JSONDecodeError\<rparr>"
    by (simp add: post_status_error_def)
  have h3: "post_status 300 payload_e4 (request_of example_config example_game start_board)
       = Inr \<lparr>status_code = 300, json_method = Inr (JObj [(''output'', JStr payload_e4)])\<rparr>"
    by (simp add: post_status_def)
  note a = one_request_no_retry [of example_config post_timeout example_loads example_game
      start_board "[]"]
  note b = one_request_no_retry [of example_config post_status_error example_loads example_game
      start_board "[]"]
  note c = one_request_no_retry [of example_config "post_ok payload_e4" example_loads example_game
      start_board "[]"]
  note d = one_request_no_retry [of example_config "post_status 300 payload_e4" example_loads
      example_game start_board "[]"]
  from a h1 have r1: "search example_config post_timeout example_loads example_game start_board []
       = (Inl Timeout, [] @ [Post (request_of example_config example_game start_board)])"
    by blast
  have "post_status_error (request_of example_config example_game start_board)
          = Inr \<lparr>status_code = 500, json_method = Inl JSONDecodeError\<rparr>
        \<and> 400 \<le> status_code \<lparr>status_code = 500, json_method = Inl JSONDecodeError\<rparr>
        \<and> status_code \<lparr>status_code = 500, json_method = Inl JSONDecodeError\<rparr> < 600"
    using h2 by simp
  with b have r2: "search example_config post_status_error example_loads example_game start_board []
       = (Inl HTTPError, [] @ [Post (request_of example_config example_game start_board)])"
    by blast
  from c have r3: "posts (snd (search example_config (post_ok payload_e4) example_loads example_game
          start_board []))
       = posts [] @ [request_of example_config example_game start_board]"
    by blast
  let ?r = "\<lparr>status_code = 300, json_method = Inr (JObj [(''output'', JStr payload_e4)])\<rparr>"
  have "post_status 300 payload_e4 (request_of example_config example_game start_board) = Inr ?r
        \<and> (status_code ?r < 400 \<or> 600 \<le> status_code ?r)"
    using h3 by simp
  with d have "search example_config (post_status 300 payload_e4) example_loads example_game
          start_board []
       = search example_config (\<lambda>req. Inr (?r\<lparr>status_code := 200\<rparr>)) example_loads example_game
          start_board []"
    by blast
  moreover have "(\<lambda>req. Inr (?r\<lparr>status_code := 200\<rparr>)) = post_ok payload_e4"
    by (rule ext) (simp add: post_ok_def)
  ultimately have r4: "search example_config (post_status 300 payload_e4) example_loads example_game
          start_board []
       = search example_config (post_ok payload_e4) example_loads example_game start_board []"
    by simp
  from h1 h2 h3 r1 r2 r3 r4 show ?thesis by simp
qed

text \<open>
  Counterexample to C5 as stated: the endpoint answers with the non-2xx status 300 and
  the body \<open>{"output": "{\"move\": \"e4\"}"}\<close>; \<open>search\<close> does not fail but returns the move
  e2e4.
\<close>

theorem status_300_is_not_a_failure:
  "post_status 300 payload_e4 (request_of example_config example_game start_board)
     = Inr \<lparr>status_code = 300, json_method = Inr (JObj [(''output'', JStr payload_e4)])\<rparr>
   \<and> search example_config (post_status 300 payload_e4) example_loads example_game start_board []
     = (Inr (PlayResult (Some ''e2e4'') None),
        [Post (request_of example_config example_game start_board)])"
proof -
  have h3: "post_status 300 payload_e4 (request_of example_config example_game start_board)
       = Inr \<lparr>status_code = 300, json_method = Inr (JObj [(''output'', JStr payload_e4)])\<rparr>"
    by (simp add: post_status_def)
  have h2: "decode example_loads
      \<lparr>status_code = 300, json_method = Inr (JObj [(''output'', JStr payload_e4)])\<rparr>
      = Inr (JObj [(''move'', JStr ''e4'')])"
    using lookup_e4
    by (simp add: decode_def raise_for_status_def py_get_def json_loads_def example_loads_def)
  have "\<not> truthy JNull" by simp
  then have "search example_config (post_status 300 payload_e4) example_loads example_game
      start_board [] =
     (if truthy JNull
      then (Inr (PlayResult_resigned None None True),
            [] @ [Post (request_of example_config example_game start_board)])
      else (case board_parse_san start_board (JStr ''e4'') of
              Inl e \<Rightarrow> (Inl e, [] @ [Post (request_of example_config example_game start_board)])
            | Inr mv \<Rightarrow> (Inr (PlayResult (Some mv) None),
                         [] @ [Post (request_of example_config example_game start_board)])))"
    using h3 h2 e4_fields by (intro search_quiet) auto
  then have "search example_config (post_status 300 payload_e4) example_loads example_game
      start_board []
     = (Inr (PlayResult (Some ''e2e4'') None),
        [Post (request_of example_config example_game start_board)])"
    by (simp add: board_parse_san_def start_parse_e4)
  with h3 show ?thesis by simp
qed

text \<open>
  Claim C1. When the endpoint's answer decodes to an object whose \<open>resign\<close> is true
  (with \<open>illegal_moves\<close> absent, null or a list of strings, as the interface declares
  it), \<open>search\<close> returns \<open>PlayResult(None, None, resigned=True)\<close>: resignation, no move.
  Nothing is assumed about \<open>move\<close> or about what the board's SAN parser would do with it,
  so the \<open>move\<close> field is never parsed on this path.
\<close>

theorem resign_precedes_move:
  assumes "post (request_of cfg lichess_game board) = Inr response"
      and "decode loads response = Inr result"
      and "py_get result ''resign'' = Inr (JBool True)"
      and "py_get result ''illegal_moves'' = Inr JNull
           \<or> (\<exists>ss. py_get result ''illegal_moves'' = Inr (JArr (map JStr ss)))"
  shows "fst (search cfg post loads lichess_game board tr)
         = Inr \<lparr>move = None, ponder = None, draw_offered = False, resigned = True\<rparr>"
proof -
  obtain move_str where mv: "py_get result ''move'' = Inr move_str"
    using py_get_some_field [OF assms(3)] by blast
  have "fst (search cfg post loads lichess_game board tr) =
     (if truthy (JBool True) then Inr (PlayResult_resigned None None True)
      else (case board_parse_san board move_str of
              Inl e \<Rightarrow> Inl e
            | Inr mv \<Rightarrow> Inr (PlayResult (Some mv) None)))"
    using assms(1,2) mv assms(3,4) by (rule search_outcome)
  then show ?thesis by (simp add: PlayResult_resigned_def)
qed

lemma lookup_resign:
  "map_of example_payloads payload_resign
   = Some (JObj [(''move'', JStr ''e4''), (''resign'', JBool True)])"
  by (simp add: example_payloads_def payload_defs)

text \<open>
  Witness for C1: the answer \<open>{"move": "e4", "resign": true}\<close> on the starting position
  is a resignation although e4 is a legal move there.
\<close>

theorem resign_precedes_move_witness:
  "post_ok payload_resign (request_of example_config example_game start_board)
     = Inr \<lparr>status_code = 200, json_method = Inr (JObj [(''output'', JStr payload_resign)])\<rparr>
   \<and> decode example_loads
        \<lparr>status_code = 200, json_method = Inr (JObj [(''output'', JStr payload_resign)])\<rparr>
       = Inr (JObj [(''move'', JStr ''e4''), (''resign'', JBool True)])
   \<and> py_get (JObj [(''move'', JStr ''e4''), (''resign'', JBool True)]) ''resign'' = Inr (JBool True)
   \<and> py_get (JObj [(''move'', JStr ''e4''), (''resign'', JBool True)]) ''illegal_moves'' = Inr JNull
   \<and> parse_san start_board ''e4'' = Inr ''e2e4''
   \<and> fst (search example_config (post_ok payload_resign) example_loads example_game start_board [])
       = Inr \<lparr>move = None, ponder = None, draw_offered = False, resigned = True\<rparr>"
proof -
  let ?res = "JObj [(''move'', JStr ''e4''), (''resign'', JBool True)]"
  note h1 = example_post_ok [of payload_resign example_config example_game start_board]
  note h2 = example_decode [OF lookup_resign]
  have h3: "py_get ?res ''resign'' = Inr (JBool True)" by (simp add: py_get_def)
  have h4: "py_get ?res ''illegal_moves'' = Inr JNull" by (simp add: py_get_def)
  note h5 = start_parse_e4
  have "fst (search example_config (post_ok payload_resign) example_loads example_game start_board [])
       = Inr \<lparr>move = None, ponder = None, draw_offered = False, resigned = True\<rparr>"
    using h1 h2 h3 disjI1 [OF h4] by (rule resign_precedes_move)
  with h1 h2 h3 h4 h5 show ?thesis by blast
qed



text \<open>
  Claim C9, as amended. The decoded answer reports a non-empty \<open>illegal_moves\<close> list and
  \<open>search\<close> ends in an error. When every item of the list is a string, the trace at the
  moment the error leaves \<open>search\<close> is the request followed by the two diagnostic
  messages: both have been sent before the error surfaces. When some item is not a
  string, the error is the \<open>TypeError\<close> raised while the diagnostic text is built, and
  it leaves \<open>search\<close> with no message sent. One of the two is always the case.
\<close>

theorem diagnostics_sent_before_error:
  assumes "post (request_of cfg lichess_game board) = Inr response"
      and "decode loads response = Inr result"
      and "py_get result ''illegal_moves'' = Inr (JArr xs)"
      and "xs \<noteq> []"
      and "fst (search cfg post loads lichess_game board tr) = Inl e"
  shows "(\<forall>ss. xs = map JStr ss \<longrightarrow>
            snd (search cfg post loads lichess_game board tr)
            = tr @ [Post (request_of cfg lichess_game board),
                    Chat ''player''
                      (''[Move '' @ str_int (fullmove_number board) @ ''] tried ''
                       @ str_nat (length ss) @ '' illegal move''
                       @ (if length ss > 1 then ''s'' else []) @ '':  '' @ join_strs '', '' ss),
                    Chat ''spectator''
                      (''[Move '' @ str_int (fullmove_number board) @ ''] tried ''
                       @ str_nat (length ss) @ '' illegal move''
                       @ (if length ss > 1 then ''s'' else []) @ '':  '' @ join_strs '', '' ss)])
       \<and> (all_strs xs = None \<longrightarrow>
            e = TypeError
            \<and> snd (search cfg post loads lichess_game board tr)
                = tr @ [Post (request_of cfg lichess_game board)])
       \<and> ((\<exists>ss. xs = map JStr ss) \<or> all_strs xs = None)"
proof (intro conjI allI impI)
  fix ss assume "xs = map JStr ss"
  with assms(3,4) have a: "py_get result ''illegal_moves'' = Inr (JArr (map JStr ss))"
    and b: "ss \<noteq> []" by auto
  show "snd (search cfg post loads lichess_game board tr)
            = tr @ [Post (request_of cfg lichess_game board),
                    Chat ''player''
                      (''[Move '' @ str_int (fullmove_number board) @ ''] tried ''
                       @ str_nat (length ss) @ '' illegal move''
                       @ (if length ss > 1 then ''s'' else []) @ '':  '' @ join_strs '', '' ss),
                    Chat ''spectator''
                      (''[Move '' @ str_int (fullmove_number board) @ ''] tried ''
                       @ str_nat (length ss) @ '' illegal move''
                       @ (if length ss > 1 then ''s'' else []) @ '':  '' @ join_strs '', '' ss)]"
    using assms(1,2) a b refl by (rule search_strs_trace)
next
  assume n: "all_strs xs = None"
  have s: "search cfg post loads lichess_game board tr
        = (Inl TypeError, tr @ [Post (request_of cfg lichess_game board)])"
    using assms(1-4) n by (rule search_message_raises)
  with assms(5) show "e = TypeError" by simp
  from s show "snd (search cfg post loads lichess_game board tr)
                = tr @ [Post (request_of cfg lichess_game board)]" by simp
next
  show "(\<exists>ss. xs = map JStr ss) \<or> all_strs xs = None"
    using all_strs_Some [of xs] by (cases "all_strs xs") auto
qed

text \<open>
  Witness for C9: the answer reports two illegal moves and proposes \<open>z9\<close>; \<open>search\<close> fails
  with \<open>InvalidMoveError\<close> after both rooms have received the diagnostic.
\<close>

theorem diagnostics_sent_before_error_witness:
  "decode example_loads
        \<lparr>status_code = 200, json_method = Inr (JObj [(''output'', JStr payload_z9)])\<rparr>
       = Inr (JObj [(''move'', JStr ''z9''), (''illegal_moves'', JArr [JStr ''Ke2'', JStr ''Qh5''])])
   \<and> fst (search example_config (post_ok payload_z9) example_loads example_game start_board [])
       = Inl InvalidMoveError
   \<and> snd (search example_config (post_ok payload_z9) example_loads example_game start_board [])
       = [Post (request_of example_config example_game start_board),
          Chat ''player'' ''[Move 1] tried 2 illegal moves:  Ke2, Qh5'',
          Chat ''spectator'' ''[Move 1] tried 2 illegal moves:  Ke2, Qh5'']"
proof -
  note h1 = example_post_ok [of payload_z9 example_config example_game start_board]
  note h2 = example_decode [OF lookup_z9]
  have h3: "py_get (JObj [(''move'', JStr ''z9''), (''illegal_moves'', JArr [JStr ''Ke2'', JStr ''Qh5''])])
     ''illegal_moves'' = Inr (JArr [JStr ''Ke2'', JStr ''Qh5''])"
    by (simp add: py_get_def)
  have h4: "[JStr ''Ke2'', JStr ''Qh5''] \<noteq> []" by simp
  have h6: "py_get (JObj [(''move'', JStr ''z9''), (''illegal_moves'', JArr [JStr ''Ke2'', JStr ''Qh5''])])
     ''illegal_moves'' = Inr JNull
     \<or> (\<exists>ss. py_get (JObj [(''move'', JStr ''z9''), (''illegal_moves'', JArr [JStr ''Ke2'', JStr ''Qh5''])])
     ''illegal_moves'' = Inr (JArr (map JStr ss)))"
    using z9_fields(3) by blast
  have "fst (search example_config (post_ok payload_z9) example_loads example_game start_board []) =
     (if truthy JNull then Inr (PlayResult_resigned None None True)
      else (case board_parse_san start_board (JStr ''z9'') of
              Inl e \<Rightarrow> Inl e
            | Inr mv \<Rightarrow> Inr (PlayResult (Some mv) None)))"
    using h1 h2 z9_fields(1,2) h6 by (rule search_outcome)
  then have h5: "fst (search example_config (post_ok payload_z9) example_loads example_game start_board [])
       = Inl InvalidMoveError"
    by (simp add: board_parse_san_def start_parse_z9)
  note T = diagnostics_sent_before_error [where post = "post_ok payload_z9", OF h1 h2 h3 h4 h5]
  have "snd (search example_config (post_ok payload_z9) example_loads example_game start_board [])
       = [Post (request_of example_config example_game start_board),
          Chat ''player'' ''[Move 1] tried 2 illegal moves:  Ke2, Qh5'',
          Chat ''spectator'' ''[Move 1] tried 2 illegal moves:  Ke2, Qh5'']"
    using T [THEN conjunct1, THEN spec, of "[''Ke2'', ''Qh5'']"]
    by (simp add: start_fullmove str_int_examples)
  with h2 h5 show ?thesis by blast
qed

text \<open>
  Counterexample to C9 as stated: the answer reports the non-empty list \<open>[1, "Ke2"]\<close>;
  \<open>search\<close> ends in a \<open>TypeError\<close> and neither room has received a message.
\<close>

theorem error_before_diagnostics_on_mixed_list:
  "decode example_loads
        \<lparr>status_code = 200, json_method = Inr (JObj [(''output'', JStr payload_mixed_list)])\<rparr>
       = Inr (JObj [(''move'', JStr ''e4''), (''illegal_moves'', JArr [JInt 1, JStr ''Ke2''])])
   \<and> truthy (JArr [JInt 1, JStr ''Ke2''])
   \<and> search example_config (post_ok payload_mixed_list) example_loads example_game start_board []
       = (Inl TypeError, [Post (request_of example_config example_game start_board)])
   \<and> chats (snd (search example_config (post_ok payload_mixed_list) example_loads example_game
                    start_board [])) = []"
proof -
  note h1 = example_post_ok [of payload_mixed_list example_config example_game start_board]
  note h2 = example_decode [OF lookup_mixed_list]
  have h3: "py_get (JObj [(''move'', JStr ''e4''), (''illegal_moves'', JArr [JInt 1, JStr ''Ke2''])])
     ''illegal_moves'' = Inr (JArr [JInt 1, JStr ''Ke2''])"
    by (simp add: py_get_def)
  have h4: "[JInt 1, JStr ''Ke2''] \<noteq> []" by simp
  have h5: "all_strs [JInt 1, JStr ''Ke2''] = None" by simp
  have s: "search example_config (post_ok payload_mixed_list) example_loads example_game start_board []
       = (Inl TypeError, [] @ [Post (request_of example_config example_game start_board)])"
    using h1 h2 h3 h4 h5 by (rule search_message_raises)
  then show ?thesis using h2 by simp
qed

text \<open>
  Claim C2, as amended. When \<open>resign\<close> is false or absent and the answer has no \<open>move\<close>
  (with \<open>illegal_moves\<close> of the declared type), \<open>search\<close> passes \<open>None\<close> to
  \<open>board.parse_san\<close> and fails with the \<open>TypeError\<close> raised there: it returns no
  \<open>PlayResult\<close> and substitutes no move. The module has no check of the response's
  format and no error kind of its own for it.
\<close>

theorem missing_move_raises_type_error:
  assumes "post (request_of cfg lichess_game board) = Inr response"
      and "decode loads response = Inr result"
      and "py_get result ''move'' = Inr JNull"
      and "py_get result ''resign'' = Inr resign"
      and "\<not> truthy resign"
      and "py_get result ''illegal_moves'' = Inr JNull
           \<or> (\<exists>ss. py_get result ''illegal_moves'' = Inr (JArr (map JStr ss)))"
  shows "fst (search cfg post loads lichess_game board tr) = Inl TypeError"
proof -
  have "fst (search cfg post loads lichess_game board tr) =
     (if truthy resign then Inr (PlayResult_resigned None None True)
      else (case board_parse_san board JNull of
              Inl e \<Rightarrow> Inl e
            | Inr mv \<Rightarrow> Inr (PlayResult (Some mv) None)))"
    using assms(1,2,3,4,6) by (rule search_outcome)
  with assms(5) show ?thesis by (simp add: board_parse_san_def)
qed

text \<open>
  Witness for C2: the answer \<open>{"resign": false}\<close> on the starting position.
\<close>

theorem missing_move_raises_type_error_witness:
  "post_ok payload_no_move (request_of example_config example_game start_board)
     = Inr \<lparr>status_code = 200, json_method = Inr (JObj [(''output'', JStr payload_no_move)])\<rparr>
   \<and> decode example_loads
        \<lparr>status_code = 200, json_method = Inr (JObj [(''output'', JStr payload_no_move)])\<rparr>
       = Inr (JObj [(''resign'', JBool False)])
   \<and> py_get (JObj [(''resign'', JBool False)]) ''move'' = Inr JNull
   \<and> py_get (JObj [(''resign'', JBool False)]) ''resign'' = Inr (JBool False)
   \<and> \<not> truthy (JBool False)
   \<and> py_get (JObj [(''resign'', JBool False)]) ''illegal_moves'' = Inr JNull
   \<and> fst (search example_config (post_ok payload_no_move) example_loads example_game start_board [])
       = Inl TypeError"
proof -
  let ?res = "JObj [(''resign'', JBool False)]"
  note h1 = example_post_ok [of payload_no_move example_config example_game start_board]
  note h2 = example_decode [OF lookup_no_move]
  have h3: "py_get ?res ''move'' = Inr JNull" by (simp add: py_get_def)
  have h4: "py_get ?res ''resign'' = Inr (JBool False)" by (simp add: py_get_def)
  have h5: "\<not> truthy (JBool False)" by simp
  have h6: "py_get ?res ''illegal_moves'' = Inr JNull" by (simp add: py_get_def)
  have "fst (search example_config (post_ok payload_no_move) example_loads example_game start_board [])
       = Inl TypeError"
    using h1 h2 h3 h4 h5 disjI1 [OF h6] by (rule missing_move_raises_type_error)
  with h1 h2 h3 h4 h5 h6 show ?thesis by blast
qed

text \<open>
  Counterexample to C2 as stated: on the answer \<open>{"resign": false}\<close> the error that leaves
  \<open>search\<close> is \<open>TypeError\<close>, not \<open>ResponseFormatError\<close>.
\<close>

theorem missing_move_not_response_format_error:
  "decode example_loads
        \<lparr>status_code = 200, json_method = Inr (JObj [(''output'', JStr payload_no_move)])\<rparr>
       = Inr (JObj [(''resign'', JBool False)])
   \<and> fst (search example_config (post_ok payload_no_move) example_loads example_game start_board [])
       = Inl TypeError
   \<and> fst (search example_config (post_ok payload_no_move) example_loads example_game start_board [])
       \<noteq> Inl ResponseFormatError"
proof -
  let ?res = "JObj [(''resign'', JBool False)]"
  note h1 = example_post_ok [of payload_no_move example_config example_game start_board]
  note h2 = example_decode [OF lookup_no_move]
  have h3: "py_get ?res ''move'' = Inr JNull" by (simp add: py_get_def)
  have h4: "py_get ?res ''resign'' = Inr (JBool False)" by (simp add: py_get_def)
  have h6: "py_get ?res ''illegal_moves'' = Inr JNull" by (simp add: py_get_def)
  have "fst (search example_config (post_ok payload_no_move) example_loads example_game start_board []) =
     (if truthy (JBool False) then Inr (PlayResult_resigned None None True)
      else (case board_parse_san start_board JNull of
              Inl e \<Rightarrow> Inl e
            | Inr mv \<Rightarrow> Inr (PlayResult (Some mv) None)))"
    using h1 h2 h3 h4 disjI1 [OF h6] by (rule search_outcome)
  then have "fst (search example_config (post_ok payload_no_move) example_loads example_game start_board [])
       = Inl TypeError"
    by (simp add: board_parse_san_def)
  with h2 show ?thesis by simp
qed






end
